theory Spec2Isabelle
  imports Complex_Main
begin

section \<open>JavaScript values\<close>

text \<open>
  What a handler finds in \<open>req.body\<close>. A JSON body carries any of these values; a multipart
  body, which the two book routes are built for (\<open>upload.single\<close>, lines 121 and 144),
  carries every field as a string. A field that is absent reads as \<open>undefined\<close>. A number
  is the double that the parser produced from the text of the body, a rational.

  \<open>truthy\<close> is JavaScript's conversion to a boolean and \<open>ou a b\<close> is \<open>a || b\<close>: the string
  "0" is truthy, as every non-empty string is.
\<close>

datatype jsval =
    JUndefined
  | JNull
  | JBool bool
  | JNum rat
  | JStr string
  | JArr "jsval list"
  | JObj "(string \<times> jsval) list"

fun truthy :: "jsval \<Rightarrow> bool" where
  "truthy JUndefined = False"
| "truthy JNull = False"
| "truthy (JBool b) = b"
| "truthy (JNum n) = (n \<noteq> 0)"
| "truthy (JStr s) = (s \<noteq> [])"
| "truthy (JArr vs) = True"
| "truthy (JObj fs) = True"

definition ou :: "jsval \<Rightarrow> jsval \<Rightarrow> jsval" where
  "ou a b = (if truthy a then a else b)"

section \<open>Data model (src/index.js, lines 43-111)\<close>

text \<open>
  The three Sequelize models \<open>Usuario\<close>, \<open>Livro\<close> and \<open>Emprestimo\<close> are records of the
  values their columns store; the primary key \<open>id\<close> that Sequelize adds to every model is
  the first field of each. The columns \<open>createdAt\<close> and \<open>updatedAt\<close> that
  \<open>timestamps: true\<close> adds are left out: no handler of the program reads them. The
  attribute \<open>renova\<close>...\<open>es\<close> of the source is spelled \<open>renovacoes\<close>. A date is its time
  value, the milliseconds since the epoch.
\<close>

datatype faixa = Livre | Infantil | Infantojuvenil | Adulto

fun nome_faixa :: "faixa \<Rightarrow> string" where
  "nome_faixa Livre = ''Livre''"
| "nome_faixa Infantil = ''Infantil''"
| "nome_faixa Infantojuvenil = ''Infantojuvenil''"
| "nome_faixa Adulto = ''Adulto''"

record usuario =
  usuario_id :: nat
  nome :: string
  email :: string
  senha :: string

record livro =
  livro_id :: nat
  titulo :: string
  autor :: string
  quantidade :: int
  editora :: string
  assunto :: string
  faixaEtaria :: faixa
  imagem :: "string option"

record emprestimo =
  emprestimo_id :: nat
  UsuarioId :: nat
  LivroId :: nat
  dataVencimento :: int
  renovacoes :: int

text \<open>
  The database: one list of rows per table, in insertion order, and the next value of each
  table's auto-increment primary key.
\<close>

record db =
  usuarios :: "usuario list"
  livros :: "livro list"
  emprestimos :: "emprestimo list"
  proximoUsuario :: nat
  proximoLivro :: nat
  proximoEmprestimo :: nat

definition db_inicial :: db where
  "db_inicial = \<lparr>usuarios = [], livros = [], emprestimos = [],
     proximoUsuario = 1, proximoLivro = 1, proximoEmprestimo = 1\<rparr>"

section \<open>What lies outside the program\<close>

text \<open>
  The program runs on a JavaScript runtime in some time zone and writes, through Sequelize,
  to a MySQL store. What these do with the values the program hands them is not in the
  source; it is a parameter of every handler, and the theorems hold for every choice of it.

  \<^item> \<open>LocalTZA t isUTC\<close> is the function of that name of the ECMAScript specification: the
    offset of local time from UTC, in milliseconds, at the time value \<open>t\<close> (\<open>isUTC\<close>) or at
    the local time \<open>t\<close> (not \<open>isUTC\<close>).
  \<^item> \<open>texto_de\<close>, \<open>inteiro_de\<close> and \<open>faixa_de\<close> say what the store does with a JavaScript
    value written to a \<open>STRING\<close>, an \<open>INTEGER\<close> and the \<open>ENUM\<close> column: the value it
    stores, or \<open>None\<close> when the validation of the model or the store refuses the value, in
    which case \<open>save\<close> and \<open>create\<close> throw.
  \<^item> \<open>igual c s\<close> says whether the stored string \<open>c\<close> equals the string \<open>s\<close> under the
    collation of the column, by which the store compares strings in a \<open>where\<close> clause
    and in a unique index.
  \<^item> \<open>onde\<close> says what a \<open>where\<close> clause does with a value that is neither a string nor
    a list of strings, \<open>null\<close> or \<open>undefined\<close>: the test it applies to a \<open>STRING\<close> column,
    or \<open>None\<close> when the query is refused.
\<close>

record ambiente =
  LocalTZA :: "int \<Rightarrow> bool \<Rightarrow> int"
  texto_de :: "jsval \<Rightarrow> string option"
  inteiro_de :: "jsval \<Rightarrow> int option"
  faixa_de :: "jsval \<Rightarrow> faixa option"
  igual :: "string \<Rightarrow> string \<Rightarrow> bool"
  onde :: "jsval \<Rightarrow> (string \<Rightarrow> bool) option"

section \<open>Dates\<close>

text \<open>
  \<open>Date.prototype.getDate\<close> and \<open>setDate\<close>, as the ECMAScript specification defines them:
  \<open>getDate\<close> reads the day of \<open>LocalTime(t)\<close>; \<open>setDate(dt)\<close> builds the local time with
  the day \<open>dt\<close> and the time within the day of \<open>LocalTime(t)\<close>, and converts it back with
  \<open>UTC\<close>. Both work on the day of the month, and \<open>MakeDay\<close> rolls a day beyond the month's
  end over into the following months; here the calendar days are counted on one continuous
  axis, on which that rollover is plain addition, so that \<open>setDate (getDate + 7)\<close> is the
  source's \<open>d.setDate(d.getDate() + 7)\<close>.
\<close>

definition msPerDay :: int where
  "msPerDay = 86400000"

definition LocalTime :: "ambiente \<Rightarrow> int \<Rightarrow> int" where
  "LocalTime amb t = t + LocalTZA amb t True"

definition UTC :: "ambiente \<Rightarrow> int \<Rightarrow> int" where
  "UTC amb t = t - LocalTZA amb t False"

definition getDate :: "ambiente \<Rightarrow> int \<Rightarrow> int" where
  "getDate amb t = LocalTime amb t div msPerDay"

definition setDate :: "ambiente \<Rightarrow> int \<Rightarrow> int \<Rightarrow> int" where
  "setDate amb t dt = UTC amb (dt * msPerDay + LocalTime amb t mod msPerDay)"

text \<open>
  The column \<open>dataVencimento\<close> is a \<open>Sequelize.DATE\<close> without a precision (line 96), which
  the configured \<open>mysql\<close> dialect (line 39) writes as a \<open>DATETIME\<close> of whole seconds: the
  milliseconds of the date are cut off on the way into the store.
\<close>

definition gravar_data :: "int \<Rightarrow> int" where
  "gravar_data t = t - t mod 1000"

section \<open>The model instances of the ORM\<close>

text \<open>
  The handlers work on Sequelize model instances, and what \<open>save()\<close> writes is decided by
  the instance, as the library documents it: \<open>save()\<close> "is optimized to perform an UPDATE
  only into the fields that changed", and a field counts as changed when a value was
  assigned to it through the instance's setter; a change made inside the value an attribute
  holds is not seen unless \<open>changed(key, true)\<close> is called, which the program never does.

  An instance therefore holds the attribute values in memory (\<open>valores\<close>, Sequelize's
  \<open>dataValues\<close>) and the \<open>UPDATE\<close> that \<open>save()\<close> will issue on the row with the
  instance's primary key (\<open>pendente\<close>, a function on the stored row that sets the changed
  attributes and leaves the others as the database has them).

  \<^item> \<open>carregar\<close> is the instance that a query builds from a row: nothing is changed yet.
  \<^item> \<open>atribuir\<close> is an assignment \<open>inst.attr = v\<close> (also \<open>inst.attr += 1\<close>) of a value of
    the column's type, computed from the row: it goes through the attribute's setter, which
    changes the value in memory and records the attribute as changed; assigning the value
    the attribute already has records nothing.
  \<^item> \<open>mutar\<close> is a change made inside the object an attribute holds, as
    \<open>inst.attr.setDate(...)\<close>: the getter hands out the object, the object changes, and no
    setter runs; the value in memory is new and nothing is recorded as changed.
\<close>

record 'r instancia =
  valores :: 'r
  pendente :: "'r \<Rightarrow> 'r"

definition carregar :: "'r \<Rightarrow> 'r instancia" where
  "carregar r = \<lparr>valores = r, pendente = (\<lambda>x. x)\<rparr>"

definition atribuir :: "('r \<Rightarrow> 'r) \<Rightarrow> 'r instancia \<Rightarrow> 'r instancia" where
  "atribuir f i =
     (if f (valores i) = valores i then i
      else \<lparr>valores = f (valores i), pendente = (\<lambda>x. f (pendente i x))\<rparr>)"

definition mutar :: "('r \<Rightarrow> 'r) \<Rightarrow> 'r instancia \<Rightarrow> 'r instancia" where
  "mutar f i = i\<lparr>valores := f (valores i)\<rparr>"

text \<open>\<open>Model.findByPk(k)\<close>: the row with primary key \<open>k\<close>, or \<open>null\<close>.\<close>

definition findByPk :: "('r \<Rightarrow> nat) \<Rightarrow> 'r list \<Rightarrow> nat \<Rightarrow> 'r option" where
  "findByPk chave linhas k = find (\<lambda>r. chave r = k) linhas"

text \<open>\<open>inst.save()\<close> on a loaded instance: \<open>UPDATE ... SET (changed attributes) WHERE id = inst.id\<close>.\<close>

definition save :: "('r \<Rightarrow> nat) \<Rightarrow> 'r list \<Rightarrow> 'r instancia \<Rightarrow> 'r list" where
  "save chave linhas i =
     map (\<lambda>r. if chave r = chave (valores i) then pendente i r else r) linhas"

text \<open>\<open>inst.destroy()\<close>: \<open>DELETE ... WHERE id = inst.id\<close>.\<close>

definition destroy :: "('r \<Rightarrow> nat) \<Rightarrow> 'r list \<Rightarrow> 'r instancia \<Rightarrow> 'r list" where
  "destroy chave linhas i = filter (\<lambda>r. chave r \<noteq> chave (valores i)) linhas"

text \<open>
  An instance to which values of the request are assigned. JavaScript has no types: the
  attribute holds in memory whatever was assigned (\<open>memoria\<close>, of a record \<open>'m\<close> of
  JavaScript values), and the store converts it to the column's type when \<open>save()\<close> writes
  it. \<open>gravacao\<close> is the \<open>UPDATE\<close> that \<open>save()\<close> will issue, or \<open>None\<close> when one of the
  changed attributes holds a value that the store refuses, and \<open>save()\<close> will throw.

  \<open>atribuir_js le poe converte v\<close> is the assignment \<open>inst.attr = v\<close>, where \<open>le\<close> reads the
  attribute in memory, \<open>poe\<close> sets it, and \<open>converte v\<close> is the write of \<open>v\<close> to the
  attribute's column.
\<close>

record ('m, 'r) instancia_js =
  memoria :: 'm
  gravacao :: "('r \<Rightarrow> 'r) option"

definition carregar_js :: "'m \<Rightarrow> ('m, 'r) instancia_js" where
  "carregar_js m = \<lparr>memoria = m, gravacao = Some (\<lambda>x. x)\<rparr>"

definition atribuir_js ::
  "('m \<Rightarrow> jsval) \<Rightarrow> (jsval \<Rightarrow> 'm \<Rightarrow> 'm) \<Rightarrow> (jsval \<Rightarrow> ('r \<Rightarrow> 'r) option) \<Rightarrow> jsval
     \<Rightarrow> ('m, 'r) instancia_js \<Rightarrow> ('m, 'r) instancia_js" where
  "atribuir_js le poe converte v i =
     (if v = le (memoria i) then i
      else \<lparr>memoria = poe v (memoria i),
            gravacao = (case gravacao i of
                          None \<Rightarrow> None
                        | Some g \<Rightarrow> map_option (\<lambda>c. (\<lambda>x. c (g x))) (converte v))\<rparr>)"

text \<open>\<open>inst.save()\<close> on such an instance, with primary key \<open>k\<close>: the table, or \<open>None\<close> when it throws.\<close>

definition save_js :: "('r \<Rightarrow> nat) \<Rightarrow> 'r list \<Rightarrow> nat \<Rightarrow> ('m, 'r) instancia_js \<Rightarrow> 'r list option" where
  "save_js chave linhas k i =
     map_option (\<lambda>g. map (\<lambda>r. if chave r = k then g r else r) linhas) (gravacao i)"

text \<open>The attributes of a \<open>Livro\<close> and of a \<open>Usuario\<close> instance in memory.\<close>

record livro_mem =
  mem_livro_id :: nat
  mem_titulo :: jsval
  mem_autor :: jsval
  mem_quantidade :: jsval
  mem_editora :: jsval
  mem_assunto :: jsval
  mem_faixaEtaria :: jsval
  mem_imagem :: "string option"

record usuario_mem =
  mem_usuario_id :: nat
  mem_nome :: jsval
  mem_email :: jsval
  mem_senha :: jsval

text \<open>A row as a query loads it into memory: strings, a number, the name of the enumeration value.\<close>

definition memoria_livro :: "livro \<Rightarrow> livro_mem" where
  "memoria_livro l =
     \<lparr>mem_livro_id = livro_id l, mem_titulo = JStr (titulo l), mem_autor = JStr (autor l),
      mem_quantidade = JNum (of_int (quantidade l)), mem_editora = JStr (editora l),
      mem_assunto = JStr (assunto l), mem_faixaEtaria = JStr (nome_faixa (faixaEtaria l)),
      mem_imagem = imagem l\<rparr>"

definition memoria_usuario :: "usuario \<Rightarrow> usuario_mem" where
  "memoria_usuario u =
     \<lparr>mem_usuario_id = usuario_id u, mem_nome = JStr (nome u), mem_email = JStr (email u),
      mem_senha = JStr (senha u)\<rparr>"

text \<open>The setters of the attributes that the handlers assign request values to.\<close>

definition set_titulo ::
  "ambiente \<Rightarrow> jsval \<Rightarrow> (livro_mem, livro) instancia_js \<Rightarrow> (livro_mem, livro) instancia_js" where
  "set_titulo amb = atribuir_js mem_titulo (\<lambda>v m. m\<lparr>mem_titulo := v\<rparr>)
     (\<lambda>v. map_option (\<lambda>s r. r\<lparr>titulo := s\<rparr>) (texto_de amb v))"

definition set_autor ::
  "ambiente \<Rightarrow> jsval \<Rightarrow> (livro_mem, livro) instancia_js \<Rightarrow> (livro_mem, livro) instancia_js" where
  "set_autor amb = atribuir_js mem_autor (\<lambda>v m. m\<lparr>mem_autor := v\<rparr>)
     (\<lambda>v. map_option (\<lambda>s r. r\<lparr>autor := s\<rparr>) (texto_de amb v))"

definition set_quantidade ::
  "ambiente \<Rightarrow> jsval \<Rightarrow> (livro_mem, livro) instancia_js \<Rightarrow> (livro_mem, livro) instancia_js" where
  "set_quantidade amb = atribuir_js mem_quantidade (\<lambda>v m. m\<lparr>mem_quantidade := v\<rparr>)
     (\<lambda>v. map_option (\<lambda>n r. r\<lparr>quantidade := n\<rparr>) (inteiro_de amb v))"

definition set_editora ::
  "ambiente \<Rightarrow> jsval \<Rightarrow> (livro_mem, livro) instancia_js \<Rightarrow> (livro_mem, livro) instancia_js" where
  "set_editora amb = atribuir_js mem_editora (\<lambda>v m. m\<lparr>mem_editora := v\<rparr>)
     (\<lambda>v. map_option (\<lambda>s r. r\<lparr>editora := s\<rparr>) (texto_de amb v))"

definition set_assunto ::
  "ambiente \<Rightarrow> jsval \<Rightarrow> (livro_mem, livro) instancia_js \<Rightarrow> (livro_mem, livro) instancia_js" where
  "set_assunto amb = atribuir_js mem_assunto (\<lambda>v m. m\<lparr>mem_assunto := v\<rparr>)
     (\<lambda>v. map_option (\<lambda>s r. r\<lparr>assunto := s\<rparr>) (texto_de amb v))"

definition set_faixaEtaria ::
  "ambiente \<Rightarrow> jsval \<Rightarrow> (livro_mem, livro) instancia_js \<Rightarrow> (livro_mem, livro) instancia_js" where
  "set_faixaEtaria amb = atribuir_js mem_faixaEtaria (\<lambda>v m. m\<lparr>mem_faixaEtaria := v\<rparr>)
     (\<lambda>v. map_option (\<lambda>f r. r\<lparr>faixaEtaria := f\<rparr>) (faixa_de amb v))"

text \<open>\<open>livro.imagem = req.file.filename\<close>: the name that the upload gave the file, a string.\<close>

definition set_imagem ::
  "string \<Rightarrow> (livro_mem, livro) instancia_js \<Rightarrow> (livro_mem, livro) instancia_js" where
  "set_imagem f i =
     (if mem_imagem (memoria i) = Some f then i
      else \<lparr>memoria = (memoria i)\<lparr>mem_imagem := Some f\<rparr>,
            gravacao = map_option (\<lambda>g. (\<lambda>x. (g x)\<lparr>imagem := Some f\<rparr>)) (gravacao i)\<rparr>)"

definition set_nome ::
  "ambiente \<Rightarrow> jsval \<Rightarrow> (usuario_mem, usuario) instancia_js
     \<Rightarrow> (usuario_mem, usuario) instancia_js" where
  "set_nome amb = atribuir_js mem_nome (\<lambda>v m. m\<lparr>mem_nome := v\<rparr>)
     (\<lambda>v. map_option (\<lambda>s r. r\<lparr>nome := s\<rparr>) (texto_de amb v))"

definition set_email ::
  "ambiente \<Rightarrow> jsval \<Rightarrow> (usuario_mem, usuario) instancia_js
     \<Rightarrow> (usuario_mem, usuario) instancia_js" where
  "set_email amb = atribuir_js mem_email (\<lambda>v m. m\<lparr>mem_email := v\<rparr>)
     (\<lambda>v. map_option (\<lambda>s r. r\<lparr>email := s\<rparr>) (texto_de amb v))"

definition set_senha ::
  "ambiente \<Rightarrow> jsval \<Rightarrow> (usuario_mem, usuario) instancia_js
     \<Rightarrow> (usuario_mem, usuario) instancia_js" where
  "set_senha amb = atribuir_js mem_senha (\<lambda>v m. m\<lparr>mem_senha := v\<rparr>)
     (\<lambda>v. map_option (\<lambda>s r. r\<lparr>senha := s\<rparr>) (texto_de amb v))"

section \<open>Requests and responses\<close>

text \<open>
  The fields that the handlers take from \<open>req.body\<close>; an absent field is \<open>JUndefined\<close>.
  Ids are the primary keys that the submitted ids resolve to.
\<close>

record corpo_livro =
  req_titulo :: jsval
  req_autor :: jsval
  req_quantidade :: jsval
  req_editora :: jsval
  req_assunto :: jsval
  req_faixaEtaria :: jsval

record corpo_usuario =
  req_nome :: jsval
  req_email :: jsval
  req_senha :: jsval

text \<open>
  The texts the handlers answer with. Each constructor stands for one string literal of the
  source (the literals are Portuguese, with accents):
  \<^item> \<open>LivroNaoEncontrado\<close>: "Livro nao encontrado" (lines 151 and 280);
  \<^item> \<open>UsuarioNaoEncontrado\<close>: "Usuario nao encontrado" (line 206);
  \<^item> \<open>CredenciaisInvalidas\<close>: "Credenciais invalidas" (line 229);
  \<^item> \<open>AluguelRecusado\<close>: "Usuario ou livro invalido, ou livro nao disponivel" (line 258);
  \<^item> \<open>IdEmprestimoInvalido\<close>: "ID de emprestimo invalido" (line 283);
  \<^item> \<open>RenovacaoRecusada\<close>: "Nao e possivel renovar mais vezes" (line 304);
  \<^item> \<open>LivroDevolvido\<close>: "Livro devolvido com sucesso" (line 278);
  \<^item> \<open>LivroRenovado\<close>: "Livro renovado com sucesso!" (line 302);
  \<^item> \<open>ErroDoBanco\<close>: the message of an error that the ORM or the store raised (the
    \<open>catch\<close> branches).
  A response is its status and its JSON body. The body of a book or user route is the
  instance as it is in memory; the body of a login is the row that the query found.
\<close>

datatype texto =
    LivroNaoEncontrado
  | UsuarioNaoEncontrado
  | CredenciaisInvalidas
  | AluguelRecusado
  | IdEmprestimoInvalido
  | RenovacaoRecusada
  | LivroDevolvido
  | LivroRenovado
  | ErroDoBanco

datatype json =
    Erro texto
  | Mensagem texto
  | JLivro livro_mem
  | JUsuarioMem usuario_mem
  | JUsuario usuario
  | JEmprestimo emprestimo

type_synonym resposta = "nat \<times> json"

section \<open>The tables\<close>

definition Usuario_findByPk :: "db \<Rightarrow> nat \<Rightarrow> usuario instancia option" where
  "Usuario_findByPk d k = map_option carregar (findByPk usuario_id (usuarios d) k)"

definition Livro_findByPk :: "db \<Rightarrow> nat \<Rightarrow> livro instancia option" where
  "Livro_findByPk d k = map_option carregar (findByPk livro_id (livros d) k)"

definition Emprestimo_findByPk :: "db \<Rightarrow> nat \<Rightarrow> emprestimo instancia option" where
  "Emprestimo_findByPk d k = map_option carregar (findByPk emprestimo_id (emprestimos d) k)"

definition Livro_save :: "db \<Rightarrow> livro instancia \<Rightarrow> db" where
  "Livro_save d i = d\<lparr>livros := save livro_id (livros d) i\<rparr>"

definition Emprestimo_save :: "db \<Rightarrow> emprestimo instancia \<Rightarrow> db" where
  "Emprestimo_save d i = d\<lparr>emprestimos := save emprestimo_id (emprestimos d) i\<rparr>"

definition Emprestimo_destroy :: "db \<Rightarrow> emprestimo instancia \<Rightarrow> db" where
  "Emprestimo_destroy d i = d\<lparr>emprestimos := destroy emprestimo_id (emprestimos d) i\<rparr>"

text \<open>
  \<open>Model.create(values)\<close>: \<open>INSERT\<close> of a new row, whose primary key is the table's next
  auto-increment value; the result is the created instance. The instance of a loan keeps
  the due date it was given, the row holds it cut to the whole second.
\<close>

definition Usuario_create :: "db \<Rightarrow> usuario \<Rightarrow> usuario \<times> db" where
  "Usuario_create d r =
     (let u = r\<lparr>usuario_id := proximoUsuario d\<rparr>
      in (u, d\<lparr>usuarios := usuarios d @ [u], proximoUsuario := Suc (proximoUsuario d)\<rparr>))"

definition Livro_create :: "db \<Rightarrow> livro \<Rightarrow> livro \<times> db" where
  "Livro_create d r =
     (let l = r\<lparr>livro_id := proximoLivro d\<rparr>
      in (l, d\<lparr>livros := livros d @ [l], proximoLivro := Suc (proximoLivro d)\<rparr>))"

definition Emprestimo_create :: "db \<Rightarrow> emprestimo \<Rightarrow> emprestimo \<times> db" where
  "Emprestimo_create d r =
     (let e = r\<lparr>emprestimo_id := proximoEmprestimo d\<rparr>
      in (e, d\<lparr>emprestimos :=
                  emprestimos d @ [e\<lparr>dataVencimento := gravar_data (dataVencimento e)\<rparr>],
                proximoEmprestimo := Suc (proximoEmprestimo d)\<rparr>))"

section \<open>Books (lines 118-182)\<close>

text \<open>
  \<open>POST /livros\<close>. The six attributes are \<open>allowNull: false\<close>: with one of them absent or
  \<open>null\<close>, or holding a value that the store refuses for its column, \<open>Livro.create\<close>
  throws and the handler answers 500. \<open>arquivo\<close> is \<open>req.file.filename\<close> when a cover image
  was uploaded.
\<close>

definition adicionarLivro ::
  "ambiente \<Rightarrow> db \<Rightarrow> corpo_livro \<Rightarrow> string option \<Rightarrow> resposta \<times> db" where
  "adicionarLivro amb d b arquivo =
     (if req_titulo b \<notin> {JUndefined, JNull} \<and> req_autor b \<notin> {JUndefined, JNull} \<and>
         req_quantidade b \<notin> {JUndefined, JNull} \<and> req_editora b \<notin> {JUndefined, JNull} \<and>
         req_assunto b \<notin> {JUndefined, JNull} \<and> req_faixaEtaria b \<notin> {JUndefined, JNull} \<and>
         texto_de amb (req_titulo b) \<noteq> None \<and> texto_de amb (req_autor b) \<noteq> None \<and>
         inteiro_de amb (req_quantidade b) \<noteq> None \<and> texto_de amb (req_editora b) \<noteq> None \<and>
         texto_de amb (req_assunto b) \<noteq> None \<and> faixa_de amb (req_faixaEtaria b) \<noteq> None
      then
        let (livro, d') = Livro_create d
              \<lparr>livro_id = 0, titulo = the (texto_de amb (req_titulo b)),
               autor = the (texto_de amb (req_autor b)),
               quantidade = the (inteiro_de amb (req_quantidade b)),
               editora = the (texto_de amb (req_editora b)),
               assunto = the (texto_de amb (req_assunto b)),
               faixaEtaria = the (faixa_de amb (req_faixaEtaria b)),
               imagem = arquivo\<rparr>
        in ((201, JLivro \<lparr>mem_livro_id = livro_id livro, mem_titulo = req_titulo b,
               mem_autor = req_autor b, mem_quantidade = req_quantidade b,
               mem_editora = req_editora b, mem_assunto = req_assunto b,
               mem_faixaEtaria = req_faixaEtaria b, mem_imagem = arquivo\<rparr>), d')
      else ((500, Erro ErroDoBanco), d))"

text \<open>
  \<open>PUT /livros/:id\<close>. Each of the six assignments takes \<open>submitted || in memory\<close>; when
  \<open>save\<close> throws, the handler answers 500 and nothing was written.
\<close>

definition atualizarLivro ::
  "ambiente \<Rightarrow> db \<Rightarrow> nat \<Rightarrow> corpo_livro \<Rightarrow> string option \<Rightarrow> resposta \<times> db" where
  "atualizarLivro amb d livroId b arquivo =
     (case findByPk livro_id (livros d) livroId of
        None \<Rightarrow> ((404, Erro LivroNaoEncontrado), d)
      | Some linha \<Rightarrow>
          let livro0 = carregar_js (memoria_livro linha);
              livro1 = set_titulo amb (ou (req_titulo b) (mem_titulo (memoria livro0))) livro0;
              livro2 = set_autor amb (ou (req_autor b) (mem_autor (memoria livro1))) livro1;
              livro3 = set_quantidade amb
                         (ou (req_quantidade b) (mem_quantidade (memoria livro2))) livro2;
              livro4 = set_editora amb (ou (req_editora b) (mem_editora (memoria livro3))) livro3;
              livro5 = set_assunto amb (ou (req_assunto b) (mem_assunto (memoria livro4))) livro4;
              livro6 = set_faixaEtaria amb
                         (ou (req_faixaEtaria b) (mem_faixaEtaria (memoria livro5))) livro5;
              livro7 = (case arquivo of None \<Rightarrow> livro6 | Some f \<Rightarrow> set_imagem f livro6)
          in (case save_js livro_id (livros d) livroId livro7 of
                None \<Rightarrow> ((500, Erro ErroDoBanco), d)
              | Some ls \<Rightarrow> ((200, JLivro (memoria livro7)), d\<lparr>livros := ls\<rparr>)))"

section \<open>Users (lines 184-234)\<close>

text \<open>
  \<open>POST /registrar\<close>. The three attributes are \<open>allowNull: false\<close> and \<open>email\<close> is
  \<open>unique\<close>: \<open>Usuario.create\<close> throws when one is absent, \<open>null\<close> or refused by the store,
  or the email is taken.
\<close>

definition registrar :: "ambiente \<Rightarrow> db \<Rightarrow> corpo_usuario \<Rightarrow> resposta \<times> db" where
  "registrar amb d b =
     (if req_nome b \<notin> {JUndefined, JNull} \<and> req_email b \<notin> {JUndefined, JNull} \<and>
         req_senha b \<notin> {JUndefined, JNull} \<and>
         texto_de amb (req_nome b) \<noteq> None \<and> texto_de amb (req_email b) \<noteq> None \<and>
         texto_de amb (req_senha b) \<noteq> None \<and>
         \<not> (\<exists>r \<in> set (usuarios d). igual amb (email r) (the (texto_de amb (req_email b))))
      then
        let (usuario, d') = Usuario_create d
              \<lparr>usuario_id = 0, nome = the (texto_de amb (req_nome b)),
               email = the (texto_de amb (req_email b)),
               senha = the (texto_de amb (req_senha b))\<rparr>
        in ((201, JUsuarioMem \<lparr>mem_usuario_id = usuario_id usuario, mem_nome = req_nome b,
               mem_email = req_email b, mem_senha = req_senha b\<rparr>), d')
      else ((400, Erro ErroDoBanco), d))"

text \<open>
  \<open>PUT /usuarios/:id\<close>. \<open>save\<close> throws when the store refuses a value, or when the email
  it would write is the email of another user.
\<close>

definition atualizarUsuario :: "ambiente \<Rightarrow> db \<Rightarrow> nat \<Rightarrow> corpo_usuario \<Rightarrow> resposta \<times> db" where
  "atualizarUsuario amb d usuarioId b =
     (case findByPk usuario_id (usuarios d) usuarioId of
        None \<Rightarrow> ((404, Erro UsuarioNaoEncontrado), d)
      | Some linha \<Rightarrow>
          let usuario0 = carregar_js (memoria_usuario linha);
              usuario1 = set_nome amb (ou (req_nome b) (mem_nome (memoria usuario0))) usuario0;
              usuario2 = set_email amb (ou (req_email b) (mem_email (memoria usuario1))) usuario1;
              usuario3 = set_senha amb (ou (req_senha b) (mem_senha (memoria usuario2))) usuario2
          in (case gravacao usuario3 of
                None \<Rightarrow> ((400, Erro ErroDoBanco), d)
              | Some g \<Rightarrow>
                  if \<exists>r \<in> set (usuarios d).
                       usuario_id r \<noteq> usuarioId \<and> igual amb (email r) (email (g linha))
                  then ((400, Erro ErroDoBanco), d)
                  else ((200, JUsuarioMem (memoria usuario3)),
                        d\<lparr>usuarios := the (save_js usuario_id (usuarios d) usuarioId usuario3)\<rparr>)))"

text \<open>
  \<open>POST /login\<close>: \<open>Usuario.findOne({ where: { email, senha } })\<close>. The handler hands the
  two fields of the body to the query as they are. \<open>filtro v\<close> is the test that the
  \<open>where\<close> clause applies to a column for the value \<open>v\<close>: equality, as the store compares
  strings, for a string; equality with one of the elements for a list of strings, which
  becomes an \<open>IN\<close> list; \<open>IS NULL\<close>, which no row passes, for \<open>null\<close>; and no test at all
  for \<open>undefined\<close>, for which the query throws and the handler answers 400 (line 232). The
  result is the first row that passes both tests.
\<close>

fun filtro :: "ambiente \<Rightarrow> jsval \<Rightarrow> (string \<Rightarrow> bool) option" where
  "filtro amb JUndefined = None"
| "filtro amb JNull = Some (\<lambda>c. False)"
| "filtro amb (JStr s) = Some (\<lambda>c. igual amb c s)"
| "filtro amb (JArr vs) =
     (if list_all (\<lambda>v. case v of JStr s \<Rightarrow> True | _ \<Rightarrow> False) vs
      then Some (\<lambda>c. list_ex (\<lambda>v. case v of JStr s \<Rightarrow> igual amb c s | _ \<Rightarrow> False) vs)
      else onde amb (JArr vs))"
| "filtro amb v = onde amb v"

definition login :: "ambiente \<Rightarrow> db \<Rightarrow> jsval \<Rightarrow> jsval \<Rightarrow> resposta \<times> db" where
  "login amb d e s =
     (case filtro amb e of
        None \<Rightarrow> ((400, Erro ErroDoBanco), d)
      | Some p \<Rightarrow>
          (case filtro amb s of
             None \<Rightarrow> ((400, Erro ErroDoBanco), d)
           | Some q \<Rightarrow>
               (case find (\<lambda>u. p (email u) \<and> q (senha u)) (usuarios d) of
                  Some usuario \<Rightarrow> ((200, JUsuario usuario), d)
                | None \<Rightarrow> ((401, Erro CredenciaisInvalidas), d))))"

section \<open>Loans (lines 236-309)\<close>

text \<open>
  \<open>POST /alugar\<close>. The handler first reads the user and the book (two \<open>await\<close>s), then
  tests them and writes (\<open>Emprestimo.create\<close>, \<open>livro.save\<close>). The two parts are separate
  functions, so that what the handler does with rows it read earlier can be stated;
  \<open>alugar\<close> is the handler run without interruption. \<open>agora\<close> is \<open>new Date()\<close>.
\<close>

definition alugar_leitura ::
  "db \<Rightarrow> nat \<Rightarrow> nat \<Rightarrow> usuario instancia option \<times> livro instancia option" where
  "alugar_leitura d usuarioId livroId = (Usuario_findByPk d usuarioId, Livro_findByPk d livroId)"

definition alugar_escrita ::
  "ambiente \<Rightarrow> db \<Rightarrow> int \<Rightarrow> nat \<Rightarrow> nat
     \<Rightarrow> usuario instancia option \<times> livro instancia option \<Rightarrow> resposta \<times> db" where
  "alugar_escrita amb d agora usuarioId livroId lidos =
     (case fst lidos of
        None \<Rightarrow> ((400, Erro AluguelRecusado), d)
      | Some usuario \<Rightarrow>
          (case snd lidos of
             None \<Rightarrow> ((400, Erro AluguelRecusado), d)
           | Some livro \<Rightarrow>
               if quantidade (valores livro) > 0 then
                 let vencimento = setDate amb agora (getDate amb agora + 7);
                     (emprestimo, d1) = Emprestimo_create d
                        \<lparr>emprestimo_id = 0, UsuarioId = usuarioId, LivroId = livroId,
                         dataVencimento = vencimento, renovacoes = 0\<rparr>;
                     livro' = atribuir (\<lambda>r. r\<lparr>quantidade := quantidade (valores livro) - 1\<rparr>)
                                livro
                 in ((201, JEmprestimo emprestimo), Livro_save d1 livro')
               else ((400, Erro AluguelRecusado), d)))"

definition alugar :: "ambiente \<Rightarrow> db \<Rightarrow> int \<Rightarrow> nat \<Rightarrow> nat \<Rightarrow> resposta \<times> db" where
  "alugar amb d agora usuarioId livroId =
     alugar_escrita amb d agora usuarioId livroId (alugar_leitura d usuarioId livroId)"

text \<open>\<open>DELETE /devolver/:emprestimoId\<close>.\<close>

definition devolver :: "db \<Rightarrow> nat \<Rightarrow> resposta \<times> db" where
  "devolver d emprestimoId =
     (case Emprestimo_findByPk d emprestimoId of
        None \<Rightarrow> ((400, Erro IdEmprestimoInvalido), d)
      | Some emprestimo \<Rightarrow>
          (case Livro_findByPk d (LivroId (valores emprestimo)) of
             None \<Rightarrow> ((400, Erro LivroNaoEncontrado), d)
           | Some livro \<Rightarrow>
               let livro' = atribuir (\<lambda>r. r\<lparr>quantidade := quantidade (valores livro) + 1\<rparr>)
                              livro;
                   d1 = Livro_save d livro'
               in ((200, Mensagem LivroDevolvido), Emprestimo_destroy d1 emprestimo)))"

text \<open>
  \<open>POST /renovar\<close>. \<open>emprestimo.renova\<close>...\<open>es += 1\<close> is an assignment to the attribute;
  \<open>emprestimo.dataVencimento.setDate(...)\<close> changes the \<open>Date\<close> object the attribute holds.
\<close>

definition renovar :: "ambiente \<Rightarrow> db \<Rightarrow> nat \<Rightarrow> resposta \<times> db" where
  "renovar amb d emprestimoId =
     (case Emprestimo_findByPk d emprestimoId of
        None \<Rightarrow> ((400, Erro RenovacaoRecusada), d)
      | Some emprestimo \<Rightarrow>
          if renovacoes (valores emprestimo) < 2 then
            let emprestimo1 = atribuir
                  (\<lambda>r. r\<lparr>renovacoes := renovacoes (valores emprestimo) + 1\<rparr>) emprestimo;
                emprestimo2 = mutar
                  (\<lambda>r. r\<lparr>dataVencimento :=
                          setDate amb (dataVencimento r) (getDate amb (dataVencimento r) + 7)\<rparr>)
                  emprestimo1
            in ((200, Mensagem LivroRenovado), Emprestimo_save d emprestimo2)
          else ((400, Erro RenovacaoRecusada), d))"

section \<open>The program as a transition system\<close>

text \<open>
  One constructor per route that writes to the database, and the login. The remaining
  routes (the three listings and the e-mail notification) only read.
\<close>

datatype operacao =
    AdicionarLivro corpo_livro "string option"
  | AtualizarLivro nat corpo_livro "string option"
  | Registrar corpo_usuario
  | AtualizarUsuario nat corpo_usuario
  | Login jsval jsval
  | Alugar int nat nat
  | Devolver nat
  | Renovar nat

fun exec :: "ambiente \<Rightarrow> db \<Rightarrow> operacao \<Rightarrow> resposta \<times> db" where
  "exec amb d (AdicionarLivro b arquivo) = adicionarLivro amb d b arquivo"
| "exec amb d (AtualizarLivro k b arquivo) = atualizarLivro amb d k b arquivo"
| "exec amb d (Registrar b) = registrar amb d b"
| "exec amb d (AtualizarUsuario k b) = atualizarUsuario amb d k b"
| "exec amb d (Login e s) = login amb d e s"
| "exec amb d (Alugar agora u l) = alugar amb d agora u l"
| "exec amb d (Devolver k) = devolver d k"
| "exec amb d (Renovar k) = renovar amb d k"

definition apos :: "ambiente \<Rightarrow> db \<Rightarrow> operacao \<Rightarrow> db" where
  "apos amb d op = snd (exec amb d op)"

definition executar :: "ambiente \<Rightarrow> db \<Rightarrow> operacao list \<Rightarrow> db" where
  "executar amb d ops = foldl (apos amb) d ops"

inductive alcancavel :: "ambiente \<Rightarrow> db \<Rightarrow> bool" for amb :: ambiente where
  inicio: "alcancavel amb db_inicial"
| passo: "alcancavel amb d \<Longrightarrow> alcancavel amb (apos amb d op)"

text \<open>
  The referential shape the database keeps: primary keys are unique within a table and
  below the table's next auto-increment value.
\<close>

definition integro :: "db \<Rightarrow> bool" where
  "integro d \<longleftrightarrow>
     distinct (map usuario_id (usuarios d)) \<and>
     distinct (map livro_id (livros d)) \<and>
     distinct (map emprestimo_id (emprestimos d)) \<and>
     list_all (\<lambda>r. usuario_id r < proximoUsuario d) (usuarios d) \<and>
     list_all (\<lambda>r. livro_id r < proximoLivro d) (livros d) \<and>
     list_all (\<lambda>r. emprestimo_id r < proximoEmprestimo d) (emprestimos d)"

text \<open>The number of open loans of a book, and the copies the library holds of it.\<close>

definition emprestimosAbertos :: "db \<Rightarrow> nat \<Rightarrow> nat" where
  "emprestimosAbertos d k = length (filter (\<lambda>e. LivroId e = k) (emprestimos d))"

definition acervo :: "db \<Rightarrow> nat \<Rightarrow> int option" where
  "acervo d k =
     map_option (\<lambda>l. quantidade l + int (emprestimosAbertos d k)) (findByPk livro_id (livros d) k)"

section \<open>Example states\<close>

text \<open>
  One environment for the examples: a runtime in UTC and a store that keeps a value of the
  column's type, reads a string of decimal digits written to the \<open>INTEGER\<close> column as the
  number it spells and the name of an enumeration value as that value, and refuses every
  other value; strings are compared character by character (a binary collation); a
  \<open>where\<close> clause with any other value than those \<open>filtro\<close> knows is refused.
\<close>

definition digito :: "char \<Rightarrow> nat option" where
  "digito c = map_of [(CHR ''0'', 0), (CHR ''1'', 1), (CHR ''2'', 2), (CHR ''3'', 3),
     (CHR ''4'', 4), (CHR ''5'', 5), (CHR ''6'', 6), (CHR ''7'', 7), (CHR ''8'', 8),
     (CHR ''9'', 9)] c"

fun decimal :: "nat \<Rightarrow> string \<Rightarrow> nat option" where
  "decimal n [] = Some n"
| "decimal n (c # cs) = (case digito c of None \<Rightarrow> None | Some k \<Rightarrow> decimal (10 * n + k) cs)"

definition exemplo_texto :: "jsval \<Rightarrow> string option" where
  "exemplo_texto v = (case v of JStr s \<Rightarrow> Some s | _ \<Rightarrow> None)"

definition exemplo_inteiro :: "jsval \<Rightarrow> int option" where
  "exemplo_inteiro v =
     (case v of
        JNum q \<Rightarrow> (if of_int \<lfloor>q\<rfloor> = q then Some \<lfloor>q\<rfloor> else None)
      | JStr s \<Rightarrow> (if s = [] then None else map_option int (decimal 0 s))
      | _ \<Rightarrow> None)"

definition exemplo_faixa :: "jsval \<Rightarrow> faixa option" where
  "exemplo_faixa v =
     (case v of
        JStr s \<Rightarrow> map_of [(''Livre'', Livre), (''Infantil'', Infantil),
                    (''Infantojuvenil'', Infantojuvenil), (''Adulto'', Adulto)] s
      | _ \<Rightarrow> None)"

definition exemplo_amb :: ambiente where
  "exemplo_amb = \<lparr>LocalTZA = (\<lambda>t u. 0), texto_de = exemplo_texto, inteiro_de = exemplo_inteiro,
     faixa_de = exemplo_faixa, igual = (\<lambda>c s. c = s), onde = (\<lambda>v. None)\<rparr>"


text \<open>
  A library with one book, added through a multipart form, of which it holds one copy, and
  two users; the same library after user 1 has borrowed the book, 5 milliseconds past
  2026-03-01 07:30 UTC; after that loan was renewed twice; and a database in which the
  book of that loan is gone.
\<close>

definition exemplo_agora :: int where
  "exemplo_agora = 1772350200005"

definition exemplo_ops :: "operacao list" where
  "exemplo_ops =
     [AdicionarLivro \<lparr>req_titulo = JStr ''A'', req_autor = JStr ''B'', req_quantidade = JStr ''1'',
        req_editora = JStr ''E'', req_assunto = JStr ''S'', req_faixaEtaria = JStr ''Livre''\<rparr>
        None,
      Registrar \<lparr>req_nome = JStr ''Ana'', req_email = JStr ''ana@x'', req_senha = JStr ''s1''\<rparr>,
      Registrar \<lparr>req_nome = JStr ''Rui'', req_email = JStr ''rui@x'', req_senha = JStr ''s2''\<rparr>]"

definition exemplo_db :: db where
  "exemplo_db = executar exemplo_amb db_inicial exemplo_ops"

definition exemplo_emprestado :: db where
  "exemplo_emprestado = apos exemplo_amb exemplo_db (Alugar exemplo_agora 1 1)"

definition exemplo_renovado :: db where
  "exemplo_renovado = executar exemplo_amb exemplo_emprestado [Renovar 1, Renovar 1]"

definition exemplo_orfao :: db where
  "exemplo_orfao = exemplo_emprestado\<lparr>livros := []\<rparr>"

text \<open>
  Bodies of book updates: a multipart form that submits the quantity 0; a JSON body with
  an empty title, a new author, the number 0 as quantity, \<open>null\<close> as subject and a new
  age rating; a JSON body that submits the number 5 as quantity; and a JSON body whose
  title is a list.
\<close>

definition exemplo_vazio :: corpo_livro where
  "exemplo_vazio = \<lparr>req_titulo = JUndefined, req_autor = JUndefined,
     req_quantidade = JUndefined, req_editora = JUndefined, req_assunto = JUndefined,
     req_faixaEtaria = JUndefined\<rparr>"

definition exemplo_multipart :: corpo_livro where
  "exemplo_multipart = exemplo_vazio\<lparr>req_quantidade := JStr ''0''\<rparr>"

definition exemplo_corpo :: corpo_livro where
  "exemplo_corpo = \<lparr>req_titulo = JStr [], req_autor = JStr ''C'', req_quantidade = JNum 0,
     req_editora = JUndefined, req_assunto = JNull, req_faixaEtaria = JStr ''Adulto''\<rparr>"

definition exemplo_reposicao :: corpo_livro where
  "exemplo_reposicao = exemplo_vazio\<lparr>req_quantidade := JNum 5\<rparr>"

definition exemplo_lista :: corpo_livro where
  "exemplo_lista = exemplo_vazio\<lparr>req_titulo := JArr [JStr ''Z'']\<rparr>"



text \<open>
  Two borrow requests for the one copy of the book, by user 1 and by user 2, whose handlers
  have both read the database before either writes: the second handler writes with the
  rows it read from \<open>exemplo_db\<close>, on the database the first handler left.
\<close>

definition exemplo_primeiro :: "resposta \<times> db" where
  "exemplo_primeiro =
     alugar_escrita exemplo_amb exemplo_db exemplo_agora 1 1 (alugar_leitura exemplo_db 1 1)"

definition exemplo_segundo :: "resposta \<times> db" where
  "exemplo_segundo =
     alugar_escrita exemplo_amb (snd exemplo_primeiro) exemplo_agora 2 1
       (alugar_leitura exemplo_db 2 1)"

section \<open>The words of the specification\<close>

text \<open>
  The submitted values that the specification calls falsy, written out: an absent field,
  \<open>null\<close>, \<open>false\<close>, the number 0 and the empty string. \<open>muda v antigo\<close> says that a
  submitted value \<open>v\<close> is not one of them and differs from the value \<open>antigo\<close> that the
  attribute holds.
\<close>

definition falsy :: "jsval \<Rightarrow> bool" where
  "falsy v \<longleftrightarrow> v = JUndefined \<or> v = JNull \<or> v = JBool False \<or> v = JNum 0 \<or> v = JStr []"

definition muda :: "jsval \<Rightarrow> jsval \<Rightarrow> bool" where
  "muda v antigo \<longleftrightarrow> \<not> falsy v \<and> v \<noteq> antigo"

text \<open>
  A book update on the row \<open>l\<close> with the body \<open>b\<close>: \<open>livro_aceito\<close> says that the store
  accepts every submitted value that changes an attribute, and \<open>livro_atualizado\<close> is the
  row in which each such value, as the store converts it, has replaced the stored one.
\<close>

definition livro_aceito :: "ambiente \<Rightarrow> livro \<Rightarrow> corpo_livro \<Rightarrow> bool" where
  "livro_aceito amb l b \<longleftrightarrow>
     (muda (req_titulo b) (JStr (titulo l)) \<longrightarrow> texto_de amb (req_titulo b) \<noteq> None) \<and>
     (muda (req_autor b) (JStr (autor l)) \<longrightarrow> texto_de amb (req_autor b) \<noteq> None) \<and>
     (muda (req_quantidade b) (JNum (of_int (quantidade l)))
        \<longrightarrow> inteiro_de amb (req_quantidade b) \<noteq> None) \<and>
     (muda (req_editora b) (JStr (editora l)) \<longrightarrow> texto_de amb (req_editora b) \<noteq> None) \<and>
     (muda (req_assunto b) (JStr (assunto l)) \<longrightarrow> texto_de amb (req_assunto b) \<noteq> None) \<and>
     (muda (req_faixaEtaria b) (JStr (nome_faixa (faixaEtaria l)))
        \<longrightarrow> faixa_de amb (req_faixaEtaria b) \<noteq> None)"

definition livro_atualizado :: "ambiente \<Rightarrow> livro \<Rightarrow> corpo_livro \<Rightarrow> string option \<Rightarrow> livro" where
  "livro_atualizado amb l b f =
     l\<lparr>titulo := (if muda (req_titulo b) (JStr (titulo l))
                  then the (texto_de amb (req_titulo b)) else titulo l),
       autor := (if muda (req_autor b) (JStr (autor l))
                 then the (texto_de amb (req_autor b)) else autor l),
       quantidade := (if muda (req_quantidade b) (JNum (of_int (quantidade l)))
                      then the (inteiro_de amb (req_quantidade b)) else quantidade l),
       editora := (if muda (req_editora b) (JStr (editora l))
                   then the (texto_de amb (req_editora b)) else editora l),
       assunto := (if muda (req_assunto b) (JStr (assunto l))
                   then the (texto_de amb (req_assunto b)) else assunto l),
       faixaEtaria := (if muda (req_faixaEtaria b) (JStr (nome_faixa (faixaEtaria l)))
                       then the (faixa_de amb (req_faixaEtaria b)) else faixaEtaria l),
       imagem := (case f of None \<Rightarrow> imagem l | Some n \<Rightarrow> Some n)\<rparr>"

text \<open>
  The strings that a submitted login field offers for comparison with a stored one: a
  string offers itself, a list of strings offers its elements, and \<open>null\<close> offers none.
\<close>

definition textos :: "jsval \<Rightarrow> string list option" where
  "textos v =
     (case v of
        JNull \<Rightarrow> Some []
      | JStr s \<Rightarrow> Some [s]
      | JArr vs \<Rightarrow>
          (if list_all (\<lambda>v. case v of JStr s \<Rightarrow> True | _ \<Rightarrow> False) vs
           then Some (map (\<lambda>v. case v of JStr s \<Rightarrow> s | _ \<Rightarrow> []) vs) else None)
      | _ \<Rightarrow> None)"

section \<open>Auxiliary facts\<close>

lemmas orm_defs = carregar_def atribuir_def mutar_def findByPk_def save_def destroy_def
  carregar_js_def atribuir_js_def save_js_def memoria_livro_def memoria_usuario_def
  set_titulo_def set_autor_def set_quantidade_def set_editora_def set_assunto_def
  set_faixaEtaria_def set_imagem_def set_nome_def set_email_def set_senha_def
  Usuario_findByPk_def Livro_findByPk_def Emprestimo_findByPk_def
  Livro_save_def Emprestimo_save_def Emprestimo_destroy_def
  Usuario_create_def Livro_create_def Emprestimo_create_def

lemmas rota_defs = adicionarLivro_def atualizarLivro_def registrar_def atualizarUsuario_def
  login_def alugar_def alugar_leitura_def alugar_escrita_def devolver_def renovar_def
  getDate_def setDate_def LocalTime_def UTC_def msPerDay_def gravar_data_def ou_def

lemmas exemplo_amb_defs = exemplo_amb_def exemplo_texto_def exemplo_inteiro_def
  exemplo_faixa_def digito_def

subsection \<open>Record updates that change nothing\<close>

lemma livro_upd_eq [simp]:
  "(r\<lparr>titulo := t\<rparr> = r) = (t = titulo r)"
  "(r\<lparr>autor := a\<rparr> = r) = (a = autor r)"
  "(r\<lparr>quantidade := q\<rparr> = r) = (q = quantidade r)"
  "(r\<lparr>editora := e\<rparr> = r) = (e = editora r)"
  "(r\<lparr>assunto := s\<rparr> = r) = (s = assunto r)"
  "(r\<lparr>faixaEtaria := f\<rparr> = r) = (f = faixaEtaria r)"
  "(r\<lparr>imagem := i\<rparr> = r) = (i = imagem r)"
  by (cases r; auto)+

lemma emprestimo_upd_eq [simp]:
  "(e\<lparr>renovacoes := n\<rparr> = e) = (n = renovacoes e)"
  by (cases e; auto)

subsection \<open>The example states, evaluated\<close>

lemma exemplo_db_eq:
  "exemplo_db =
     \<lparr>usuarios =
        [\<lparr>usuario_id = 1, nome = ''Ana'', email = ''ana@x'', senha = ''s1''\<rparr>,
         \<lparr>usuario_id = 2, nome = ''Rui'', email = ''rui@x'', senha = ''s2''\<rparr>],
      livros =
        [\<lparr>livro_id = 1, titulo = ''A'', autor = ''B'', quantidade = 1, editora = ''E'',
          assunto = ''S'', faixaEtaria = Livre, imagem = None\<rparr>],
      emprestimos = [], proximoUsuario = 3, proximoLivro = 2, proximoEmprestimo = 1\<rparr>"
  by (simp add: exemplo_db_def executar_def apos_def exemplo_ops_def db_inicial_def orm_defs
      rota_defs exemplo_amb_defs Let_def)

lemma exemplo_emprestado_eq:
  "exemplo_emprestado =
     \<lparr>usuarios =
        [\<lparr>usuario_id = 1, nome = ''Ana'', email = ''ana@x'', senha = ''s1''\<rparr>,
         \<lparr>usuario_id = 2, nome = ''Rui'', email = ''rui@x'', senha = ''s2''\<rparr>],
      livros =
        [\<lparr>livro_id = 1, titulo = ''A'', autor = ''B'', quantidade = 0, editora = ''E'',
          assunto = ''S'', faixaEtaria = Livre, imagem = None\<rparr>],
      emprestimos =
        [\<lparr>emprestimo_id = 1, UsuarioId = 1, LivroId = 1,
          dataVencimento = 1772955000000, renovacoes = 0\<rparr>],
      proximoUsuario = 3, proximoLivro = 2, proximoEmprestimo = 2\<rparr>"
  by (simp add: exemplo_emprestado_def exemplo_db_eq exemplo_agora_def apos_def orm_defs
      rota_defs exemplo_amb_defs Let_def)

lemma exemplo_renovado_eq:
  "exemplo_renovado =
     \<lparr>usuarios =
        [\<lparr>usuario_id = 1, nome = ''Ana'', email = ''ana@x'', senha = ''s1''\<rparr>,
         \<lparr>usuario_id = 2, nome = ''Rui'', email = ''rui@x'', senha = ''s2''\<rparr>],
      livros =
        [\<lparr>livro_id = 1, titulo = ''A'', autor = ''B'', quantidade = 0, editora = ''E'',
          assunto = ''S'', faixaEtaria = Livre, imagem = None\<rparr>],
      emprestimos =
        [\<lparr>emprestimo_id = 1, UsuarioId = 1, LivroId = 1,
          dataVencimento = 1772955000000, renovacoes = 2\<rparr>],
      proximoUsuario = 3, proximoLivro = 2, proximoEmprestimo = 2\<rparr>"
  by (simp add: exemplo_renovado_def exemplo_emprestado_eq executar_def apos_def orm_defs
      rota_defs exemplo_amb_defs Let_def)

lemma exemplo_orfao_eq:
  "exemplo_orfao =
     \<lparr>usuarios =
        [\<lparr>usuario_id = 1, nome = ''Ana'', email = ''ana@x'', senha = ''s1''\<rparr>,
         \<lparr>usuario_id = 2, nome = ''Rui'', email = ''rui@x'', senha = ''s2''\<rparr>],
      livros = [],
      emprestimos =
        [\<lparr>emprestimo_id = 1, UsuarioId = 1, LivroId = 1,
          dataVencimento = 1772955000000, renovacoes = 0\<rparr>],
      proximoUsuario = 3, proximoLivro = 2, proximoEmprestimo = 2\<rparr>"
  by (simp add: exemplo_orfao_def exemplo_emprestado_eq)

subsection \<open>Rows and primary keys\<close>

lemma findByPk_Some: "findByPk chave xs k = Some r \<Longrightarrow> chave r = k \<and> r \<in> set xs"
  unfolding findByPk_def by (induction xs) (auto split: if_splits)

lemma findByPk_None: "findByPk chave xs k = None \<longleftrightarrow> k \<notin> chave ` set xs"
  unfolding findByPk_def by (induction xs) auto

lemma find_save:
  assumes "\<And>r. chave (g r) = chave r"
  shows "find (\<lambda>r. chave r = k) (map (\<lambda>r. if chave r = j then g r else r) xs) =
         map_option (\<lambda>r. if chave r = j then g r else r) (find (\<lambda>r. chave r = k) xs)"
  by (induction xs) (auto simp: assms)

lemma chave_unica:
  assumes "distinct (map chave xs)" and "findByPk chave xs k = Some r"
      and "x \<in> set xs" and "chave x = k"
  shows "x = r"
proof -
  have "inj_on chave (set xs)" using assms(1) by (simp add: distinct_map)
  moreover have "r \<in> set xs" "chave r = k" using assms(2) by (simp_all add: findByPk_Some)
  ultimately show ?thesis using assms(3,4) by (auto dest: inj_onD)
qed

lemma destroy_remove1:
  assumes "distinct (map chave xs)" and "findByPk chave xs k = Some r"
  shows "filter (\<lambda>x. chave x \<noteq> k) xs = remove1 r xs"
  using assms unfolding findByPk_def
proof (induction xs)
  case Nil
  then show ?case by simp
next
  case (Cons x xs)
  show ?case
  proof (cases "chave x = k")
    case True
    with Cons.prems have "x = r" and "k \<notin> chave ` set xs" by auto
    then have "filter (\<lambda>x. chave x \<noteq> k) xs = xs" by (auto simp: filter_id_conv)
    with True \<open>x = r\<close> show ?thesis by simp
  next
    case False
    with Cons.prems have f: "find (\<lambda>r. chave r = k) xs = Some r" and d: "distinct (map chave xs)"
      by auto
    from f have "chave r = k" by (auto simp: find_Some_iff)
    with False have "x \<noteq> r" by auto
    with False Cons.IH [OF d f] show ?thesis by simp
  qed
qed

lemma valores_atribuir: "valores (atribuir f i) = f (valores i)"
  by (simp add: atribuir_def)

subsection \<open>Rows that a write leaves alone\<close>

lemma find_save_outro:
  assumes "\<And>r. chave (g r) = chave r" and "k \<noteq> j"
  shows "find (\<lambda>r. chave r = k) (map (\<lambda>r. if chave r = j then g r else r) xs) =
         find (\<lambda>r. chave r = k) xs"
  using assms(2) by (induction xs) (auto simp: assms(1))

lemma chaves_save:
  assumes "\<And>r. chave (g r) = chave r"
  shows "map chave (map (\<lambda>r. if chave r = j then g r else r) xs) = map chave xs"
  by (induction xs) (auto simp: assms)

lemma list_all_save:
  assumes "\<And>r. chave (g r) = chave r"
  shows "list_all (\<lambda>r. chave r < n) (map (\<lambda>r. if chave r = j then g r else r) xs) =
         list_all (\<lambda>r. chave r < (n::nat)) xs"
  by (induction xs) (auto simp: assms)

subsection \<open>Counting rows\<close>

lemma find_novo:
  assumes "find P xs = Some r"
  shows "find P (xs @ ys) = Some r"
  using assms by (induction xs) (auto split: if_splits)

lemma conta_save:
  assumes "\<And>r. P (g r) = P r"
  shows "length (filter P (map (\<lambda>r. if c r then g r else r) xs)) = length (filter P xs)"
  by (induction xs) (auto simp: assms)

lemma conta_remove1:
  assumes "e \<in> set xs"
  shows "length (filter P xs) = length (filter P (remove1 e xs)) + (if P e then 1 else 0)"
  using assms by (induction xs) auto


lemma distinct_novo:
  assumes "distinct (map chave xs)" and "list_all (\<lambda>r. chave r < n) xs" and "chave x = n"
  shows "distinct (map chave (xs @ [x]))" and "list_all (\<lambda>r. chave r < Suc n) (xs @ [x])"
  using assms by (auto simp: list_all_iff less_Suc_eq)

subsection \<open>What the loan handlers do\<close>

lemma alugar_ok:
  assumes "findByPk usuario_id (usuarios d) u = Some usr"
      and "findByPk livro_id (livros d) l = Some lv"
      and "0 < quantidade lv"
  shows "alugar amb d agora u l =
     ((201, JEmprestimo \<lparr>emprestimo_id = proximoEmprestimo d, UsuarioId = u, LivroId = l,
           dataVencimento = setDate amb agora (getDate amb agora + 7), renovacoes = 0\<rparr>),
      d\<lparr>livros := map (\<lambda>r. if livro_id r = l then r\<lparr>quantidade := quantidade lv - 1\<rparr> else r)
                    (livros d),
        emprestimos := emprestimos d @
          [\<lparr>emprestimo_id = proximoEmprestimo d, UsuarioId = u, LivroId = l,
            dataVencimento = gravar_data (setDate amb agora (getDate amb agora + 7)),
            renovacoes = 0\<rparr>],
        proximoEmprestimo := Suc (proximoEmprestimo d)\<rparr>)"
proof -
  have "livro_id lv = l" using assms(2) by (simp add: findByPk_Some)
  then show ?thesis
    using assms
    by (simp add: alugar_def alugar_leitura_def alugar_escrita_def Usuario_findByPk_def
        Livro_findByPk_def Emprestimo_create_def Livro_save_def save_def atribuir_def
        carregar_def Let_def)
qed

lemma alugar_nada:
  assumes "findByPk usuario_id (usuarios d) u = None \<or>
           findByPk livro_id (livros d) l = None \<or>
           (\<exists>lv. findByPk livro_id (livros d) l = Some lv \<and> quantidade lv \<le> 0)"
  shows "alugar amb d agora u l = ((400, Erro AluguelRecusado), d)"
  using assms
  by (auto simp: alugar_def alugar_leitura_def alugar_escrita_def Usuario_findByPk_def
      Livro_findByPk_def carregar_def split: option.splits)

lemma renovar_ok:
  assumes "findByPk emprestimo_id (emprestimos d) k = Some e" and "renovacoes e < 2"
  shows "renovar amb d k = ((200, Mensagem LivroRenovado),
     d\<lparr>emprestimos :=
         map (\<lambda>r. if emprestimo_id r = k then r\<lparr>renovacoes := renovacoes e + 1\<rparr> else r)
           (emprestimos d)\<rparr>)"
proof -
  have "emprestimo_id e = k" using assms(1) by (simp add: findByPk_Some)
  then show ?thesis
    using assms
    by (simp add: renovar_def Emprestimo_findByPk_def Emprestimo_save_def save_def atribuir_def
        mutar_def carregar_def Let_def)
qed

lemma renovar_nada:
  assumes "findByPk emprestimo_id (emprestimos d) k = None \<or>
    (\<exists>e. findByPk emprestimo_id (emprestimos d) k = Some e \<and> \<not> renovacoes e < 2)"
  shows "renovar amb d k = ((400, Erro RenovacaoRecusada), d)"
  using assms by (auto simp: renovar_def Emprestimo_findByPk_def carregar_def)

lemma devolver_ok:
  assumes "findByPk emprestimo_id (emprestimos d) k = Some e"
      and "findByPk livro_id (livros d) (LivroId e) = Some l"
  shows "devolver d k = ((200, Mensagem LivroDevolvido),
     d\<lparr>livros :=
         map (\<lambda>r. if livro_id r = LivroId e then r\<lparr>quantidade := quantidade l + 1\<rparr> else r)
           (livros d),
       emprestimos := filter (\<lambda>r. emprestimo_id r \<noteq> k) (emprestimos d)\<rparr>)"
proof -
  have "emprestimo_id e = k" "livro_id l = LivroId e"
    using assms by (simp_all add: findByPk_Some)
  then show ?thesis
    using assms
    by (simp add: devolver_def Emprestimo_findByPk_def Livro_findByPk_def Livro_save_def
        Emprestimo_destroy_def destroy_def save_def atribuir_def carregar_def Let_def)
qed

lemma devolver_sem_emprestimo:
  assumes "findByPk emprestimo_id (emprestimos d) k = None"
  shows "devolver d k = ((400, Erro IdEmprestimoInvalido), d)"
  using assms by (simp add: devolver_def Emprestimo_findByPk_def)

lemma devolver_sem_livro:
  assumes "findByPk emprestimo_id (emprestimos d) k = Some e"
      and "findByPk livro_id (livros d) (LivroId e) = None"
  shows "devolver d k = ((400, Erro LivroNaoEncontrado), d)"
  using assms
  by (simp add: devolver_def Emprestimo_findByPk_def Livro_findByPk_def carregar_def)

lemma alugar_casos:
  "(\<exists>usr lv. findByPk usuario_id (usuarios d) u = Some usr \<and>
      findByPk livro_id (livros d) l = Some lv \<and> 0 < quantidade lv) \<or>
   (findByPk usuario_id (usuarios d) u = None \<or>
    findByPk livro_id (livros d) l = None \<or>
    (\<exists>lv. findByPk livro_id (livros d) l = Some lv \<and> quantidade lv \<le> 0))"
  by (cases "findByPk usuario_id (usuarios d) u"; cases "findByPk livro_id (livros d) l") auto

lemma renovar_casos:
  "(\<exists>e. findByPk emprestimo_id (emprestimos d) k = Some e \<and> renovacoes e < 2) \<or>
   (findByPk emprestimo_id (emprestimos d) k = None \<or>
    (\<exists>e. findByPk emprestimo_id (emprestimos d) k = Some e \<and> \<not> renovacoes e < 2))"
  by (cases "findByPk emprestimo_id (emprestimos d) k") auto

lemma devolver_casos:
  "(\<exists>e l. findByPk emprestimo_id (emprestimos d) k = Some e \<and>
      findByPk livro_id (livros d) (LivroId e) = Some l) \<or>
   findByPk emprestimo_id (emprestimos d) k = None \<or>
   (\<exists>e. findByPk emprestimo_id (emprestimos d) k = Some e \<and>
      findByPk livro_id (livros d) (LivroId e) = None)"
  by (cases "findByPk emprestimo_id (emprestimos d) k") auto

subsection \<open>Assignments of request values\<close>

lemma truthy_falsy: "truthy v \<longleftrightarrow> \<not> falsy v"
  by (cases v) (auto simp: falsy_def)

lemma ou_muda: "ou v a = (if muda v a then v else a)"
  by (auto simp: ou_def muda_def truthy_falsy)

lemma muda_mesmo [simp]: "\<not> muda v v"
  by (simp add: muda_def)

lemma atribuir_js_memoria:
  "memoria (atribuir_js le poe conv v i) =
     (if v = le (memoria i) then memoria i else poe v (memoria i))"
  by (simp add: atribuir_js_def)

lemma atribuir_js_efeito:
  "map_option (\<lambda>g. g l) (gravacao (atribuir_js le poe conv v i)) =
     (if v = le (memoria i) then map_option (\<lambda>g. g l) (gravacao i)
      else (case map_option (\<lambda>g. g l) (gravacao i) of
              None \<Rightarrow> None
            | Some r \<Rightarrow> map_option (\<lambda>c. c r) (conv v)))"
  by (cases "gravacao i"; cases "conv v") (simp_all add: atribuir_js_def)

lemma atribuir_js_chave:
  assumes "\<And>g x. gravacao i = Some g \<Longrightarrow> chave (g x) = chave x"
      and "\<And>c x. conv v = Some c \<Longrightarrow> chave (c x) = chave x"
      and "gravacao (atribuir_js le poe conv v i) = Some g"
  shows "chave (g x) = chave x"
  using assms
  by (cases "gravacao i"; cases "conv v") (auto simp: atribuir_js_def split: if_splits)

lemma atualizarLivro_forma_geral:
  assumes "findByPk livro_id (livros d) k = Some l"
  shows "\<exists>i. atualizarLivro amb d k b f =
       (case save_js livro_id (livros d) k i of
          None \<Rightarrow> ((500, Erro ErroDoBanco), d)
        | Some ls \<Rightarrow> ((200, JLivro (memoria i)), d\<lparr>livros := ls\<rparr>)) \<and>
     (\<forall>g x. gravacao i = Some g \<longrightarrow> livro_id (g x) = livro_id x) \<and>
     map_option (\<lambda>g. g l) (gravacao i) =
       (if livro_aceito amb l b then Some (livro_atualizado amb l b f) else None)"
proof -
  define i0 :: "(livro_mem, livro) instancia_js" where "i0 = carregar_js (memoria_livro l)"
  define i1 where "i1 = set_titulo amb (ou (req_titulo b) (mem_titulo (memoria i0))) i0"
  define i2 where "i2 = set_autor amb (ou (req_autor b) (mem_autor (memoria i1))) i1"
  define i3 where "i3 = set_quantidade amb
    (ou (req_quantidade b) (mem_quantidade (memoria i2))) i2"
  define i4 where "i4 = set_editora amb (ou (req_editora b) (mem_editora (memoria i3))) i3"
  define i5 where "i5 = set_assunto amb (ou (req_assunto b) (mem_assunto (memoria i4))) i4"
  define i6 where "i6 = set_faixaEtaria amb
    (ou (req_faixaEtaria b) (mem_faixaEtaria (memoria i5))) i5"
  define i7 where "i7 = (case f of None \<Rightarrow> i6 | Some n \<Rightarrow> set_imagem n i6)"
  define t1 where "t1 = muda (req_titulo b) (JStr (titulo l))"
  define t2 where "t2 = muda (req_autor b) (JStr (autor l))"
  define t3 where "t3 = muda (req_quantidade b) (JNum (of_int (quantidade l)))"
  define t4 where "t4 = muda (req_editora b) (JStr (editora l))"
  define t5 where "t5 = muda (req_assunto b) (JStr (assunto l))"
  define t6 where "t6 = muda (req_faixaEtaria b) (JStr (nome_faixa (faixaEtaria l)))"
  define a1 where "a1 \<longleftrightarrow> (t1 \<longrightarrow> texto_de amb (req_titulo b) \<noteq> None)"
  define a2 where "a2 \<longleftrightarrow> a1 \<and> (t2 \<longrightarrow> texto_de amb (req_autor b) \<noteq> None)"
  define a3 where "a3 \<longleftrightarrow> a2 \<and> (t3 \<longrightarrow> inteiro_de amb (req_quantidade b) \<noteq> None)"
  define a4 where "a4 \<longleftrightarrow> a3 \<and> (t4 \<longrightarrow> texto_de amb (req_editora b) \<noteq> None)"
  define a5 where "a5 \<longleftrightarrow> a4 \<and> (t5 \<longrightarrow> texto_de amb (req_assunto b) \<noteq> None)"
  define a6 where "a6 \<longleftrightarrow> a5 \<and> (t6 \<longrightarrow> faixa_de amb (req_faixaEtaria b) \<noteq> None)"
  define l1 where "l1 = l\<lparr>titulo := (if t1 then the (texto_de amb (req_titulo b)) else titulo l)\<rparr>"
  define l2 where "l2 = l1\<lparr>autor := (if t2 then the (texto_de amb (req_autor b)) else autor l)\<rparr>"
  define l3 where "l3 = l2\<lparr>quantidade :=
    (if t3 then the (inteiro_de amb (req_quantidade b)) else quantidade l)\<rparr>"
  define l4 where "l4 = l3\<lparr>editora :=
    (if t4 then the (texto_de amb (req_editora b)) else editora l)\<rparr>"
  define l5 where "l5 = l4\<lparr>assunto :=
    (if t5 then the (texto_de amb (req_assunto b)) else assunto l)\<rparr>"
  define l6 where "l6 = l5\<lparr>faixaEtaria :=
    (if t6 then the (faixa_de amb (req_faixaEtaria b)) else faixaEtaria l)\<rparr>"
  define l7 where "l7 = l6\<lparr>imagem := (case f of None \<Rightarrow> imagem l | Some n \<Rightarrow> Some n)\<rparr>"
  note sets = set_titulo_def set_autor_def set_quantidade_def set_editora_def set_assunto_def
    set_faixaEtaria_def
  have m0: "memoria i0 = memoria_livro l" and e0: "map_option (\<lambda>g. g l) (gravacao i0) = Some l"
    and c0: "\<And>g x. gravacao i0 = Some g \<Longrightarrow> livro_id (g x) = livro_id x"
    by (auto simp: i0_def carregar_js_def)
  have m1: "memoria i1 = (memoria_livro l)\<lparr>mem_titulo := ou (req_titulo b) (JStr (titulo l))\<rparr>"
    by (auto simp: i1_def sets atribuir_js_memoria m0 memoria_livro_def)
  have e1: "map_option (\<lambda>g. g l) (gravacao i1) = (if a1 then Some l1 else None)"
    unfolding i1_def sets atribuir_js_efeito e0 m0
    by (auto simp: memoria_livro_def ou_muda a1_def l1_def t1_def)
  have c1: "\<And>g x. gravacao i1 = Some g \<Longrightarrow> livro_id (g x) = livro_id x"
    unfolding i1_def sets by (erule atribuir_js_chave [rotated 2]) (auto simp: c0)
  have m2: "memoria i2 = (memoria i1)\<lparr>mem_autor := ou (req_autor b) (JStr (autor l))\<rparr>"
    by (auto simp: i2_def sets atribuir_js_memoria m1 memoria_livro_def)
  have e2: "map_option (\<lambda>g. g l) (gravacao i2) = (if a2 then Some l2 else None)"
    unfolding i2_def sets atribuir_js_efeito e1 m1
    by (auto simp: memoria_livro_def ou_muda a2_def l2_def t2_def l1_def)
  have c2: "\<And>g x. gravacao i2 = Some g \<Longrightarrow> livro_id (g x) = livro_id x"
    unfolding i2_def sets by (erule atribuir_js_chave [rotated 2]) (auto simp: c1)
  have m3: "memoria i3 = (memoria i2)\<lparr>mem_quantidade :=
      ou (req_quantidade b) (JNum (of_int (quantidade l)))\<rparr>"
    by (auto simp: i3_def sets atribuir_js_memoria m2 m1 memoria_livro_def)
  have e3: "map_option (\<lambda>g. g l) (gravacao i3) = (if a3 then Some l3 else None)"
    unfolding i3_def sets atribuir_js_efeito e2 m2 m1
    by (auto simp: memoria_livro_def ou_muda a3_def l3_def t3_def l2_def l1_def)
  have c3: "\<And>g x. gravacao i3 = Some g \<Longrightarrow> livro_id (g x) = livro_id x"
    unfolding i3_def sets by (erule atribuir_js_chave [rotated 2]) (auto simp: c2)
  have m4: "memoria i4 = (memoria i3)\<lparr>mem_editora := ou (req_editora b) (JStr (editora l))\<rparr>"
    by (auto simp: i4_def sets atribuir_js_memoria m3 m2 m1 memoria_livro_def)
  have e4: "map_option (\<lambda>g. g l) (gravacao i4) = (if a4 then Some l4 else None)"
    unfolding i4_def sets atribuir_js_efeito e3 m3 m2 m1
    by (auto simp: memoria_livro_def ou_muda a4_def l4_def t4_def l3_def l2_def l1_def)
  have c4: "\<And>g x. gravacao i4 = Some g \<Longrightarrow> livro_id (g x) = livro_id x"
    unfolding i4_def sets by (erule atribuir_js_chave [rotated 2]) (auto simp: c3)
  have m5: "memoria i5 = (memoria i4)\<lparr>mem_assunto := ou (req_assunto b) (JStr (assunto l))\<rparr>"
    by (auto simp: i5_def sets atribuir_js_memoria m4 m3 m2 m1 memoria_livro_def)
  have e5: "map_option (\<lambda>g. g l) (gravacao i5) = (if a5 then Some l5 else None)"
    unfolding i5_def sets atribuir_js_efeito e4 m4 m3 m2 m1
    by (auto simp: memoria_livro_def ou_muda a5_def l5_def t5_def l4_def l3_def l2_def l1_def)
  have c5: "\<And>g x. gravacao i5 = Some g \<Longrightarrow> livro_id (g x) = livro_id x"
    unfolding i5_def sets by (erule atribuir_js_chave [rotated 2]) (auto simp: c4)
  have m6: "memoria i6 = (memoria i5)\<lparr>mem_faixaEtaria :=
      ou (req_faixaEtaria b) (JStr (nome_faixa (faixaEtaria l)))\<rparr>"
    by (auto simp: i6_def sets atribuir_js_memoria m5 m4 m3 m2 m1 memoria_livro_def)
  have e6: "map_option (\<lambda>g. g l) (gravacao i6) = (if a6 then Some l6 else None)"
    unfolding i6_def sets atribuir_js_efeito e5 m5 m4 m3 m2 m1
    by (auto simp: memoria_livro_def ou_muda a6_def l6_def t6_def l5_def l4_def l3_def l2_def
        l1_def)
  have c6: "\<And>g x. gravacao i6 = Some g \<Longrightarrow> livro_id (g x) = livro_id x"
    unfolding i6_def sets by (erule atribuir_js_chave [rotated 2]) (auto simp: c5)
  have mi: "mem_imagem (memoria i6) = imagem l"
    by (simp add: m6 m5 m4 m3 m2 m1 memoria_livro_def)
  have e7: "map_option (\<lambda>g. g l) (gravacao i7) = (if a6 then Some l7 else None)"
  proof (cases f)
    case None
    then show ?thesis by (simp add: i7_def e6 l7_def l6_def l5_def l4_def l3_def l2_def l1_def)
  next
    case (Some n)
    show ?thesis
    proof (cases "gravacao i6")
      case None
      with e6 show ?thesis by (auto simp: i7_def Some set_imagem_def mi split: if_splits)
    next
      case (Some g)
      with e6 show ?thesis
        by (auto simp: i7_def \<open>f = Some n\<close> set_imagem_def mi l7_def l6_def l5_def l4_def
            l3_def l2_def l1_def split: if_splits)
    qed
  qed
  have c7: "\<And>g x. gravacao i7 = Some g \<Longrightarrow> livro_id (g x) = livro_id x"
    using c6 by (cases f; cases "gravacao i6") (auto simp: i7_def set_imagem_def split: if_splits)
  have ac: "a6 = livro_aceito amb l b"
    by (auto simp: a6_def a5_def a4_def a3_def a2_def a1_def livro_aceito_def t1_def t2_def
        t3_def t4_def t5_def t6_def)
  have lf: "l7 = livro_atualizado amb l b f"
    by (simp add: l7_def l6_def l5_def l4_def l3_def l2_def l1_def livro_atualizado_def t1_def
        t2_def t3_def t4_def t5_def t6_def)
  have run: "atualizarLivro amb d k b f =
      (case save_js livro_id (livros d) k i7 of
         None \<Rightarrow> ((500, Erro ErroDoBanco), d)
       | Some ls \<Rightarrow> ((200, JLivro (memoria i7)), d\<lparr>livros := ls\<rparr>))"
    using assms
    unfolding atualizarLivro_def Let_def i7_def i6_def i5_def i4_def i3_def i2_def i1_def i0_def
    by simp
  show ?thesis
    using run c7 e7 ac lf by (intro exI [of _ i7]) auto
qed


lemma atualizarLivro_nada:
  assumes "findByPk livro_id (livros d) k = None"
  shows "atualizarLivro amb d k b f = ((404, Erro LivroNaoEncontrado), d)"
  using assms by (simp add: atualizarLivro_def)

lemma atualizarLivro_aceito:
  assumes "findByPk livro_id (livros d) k = Some l" and "livro_aceito amb l b"
  shows "\<exists>g m. (\<forall>x. livro_id (g x) = livro_id x) \<and> g l = livro_atualizado amb l b f \<and>
     atualizarLivro amb d k b f =
       ((200, JLivro m),
        d\<lparr>livros := map (\<lambda>r. if livro_id r = k then g r else r) (livros d)\<rparr>)"
proof -
  from atualizarLivro_forma_geral [OF assms(1), of amb b f] obtain i where
    run: "atualizarLivro amb d k b f =
       (case save_js livro_id (livros d) k i of
          None \<Rightarrow> ((500, Erro ErroDoBanco), d)
        | Some ls \<Rightarrow> ((200, JLivro (memoria i)), d\<lparr>livros := ls\<rparr>))"
    and ch: "\<And>g x. gravacao i = Some g \<Longrightarrow> livro_id (g x) = livro_id x"
    and ef: "map_option (\<lambda>g. g l) (gravacao i) =
       (if livro_aceito amb l b then Some (livro_atualizado amb l b f) else None)"
    by blast
  from ef assms(2) obtain g where g: "gravacao i = Some g" "g l = livro_atualizado amb l b f"
    by (cases "gravacao i") auto
  show ?thesis
    using ch [OF g(1)] g(2)
    by (intro exI [of _ g] exI [of _ "memoria i"]) (simp add: run save_js_def g(1))
qed

lemma atualizarLivro_recusado:
  assumes "findByPk livro_id (livros d) k = Some l" and "\<not> livro_aceito amb l b"
  shows "atualizarLivro amb d k b f = ((500, Erro ErroDoBanco), d)"
proof -
  from atualizarLivro_forma_geral [OF assms(1), of amb b f] obtain i where
    run: "atualizarLivro amb d k b f =
       (case save_js livro_id (livros d) k i of
          None \<Rightarrow> ((500, Erro ErroDoBanco), d)
        | Some ls \<Rightarrow> ((200, JLivro (memoria i)), d\<lparr>livros := ls\<rparr>))"
    and ef: "map_option (\<lambda>g. g l) (gravacao i) =
       (if livro_aceito amb l b then Some (livro_atualizado amb l b f) else None)"
    by blast
  from ef assms(2) have "gravacao i = None" by simp
  then show ?thesis by (simp add: run save_js_def)
qed

subsection \<open>What each handler leaves in the tables\<close>

lemma adicionarLivro_forma:
  "snd (adicionarLivro amb d b f) = d \<or>
   (\<exists>l. livro_id l = proximoLivro d \<and>
      snd (adicionarLivro amb d b f) =
        d\<lparr>livros := livros d @ [l], proximoLivro := Suc (proximoLivro d)\<rparr>)"
proof (cases "snd (adicionarLivro amb d b f) = d")
  case True
  then show ?thesis by blast
next
  case False
  let ?l = "\<lparr>livro_id = proximoLivro d, titulo = the (texto_de amb (req_titulo b)),
    autor = the (texto_de amb (req_autor b)),
    quantidade = the (inteiro_de amb (req_quantidade b)),
    editora = the (texto_de amb (req_editora b)),
    assunto = the (texto_de amb (req_assunto b)),
    faixaEtaria = the (faixa_de amb (req_faixaEtaria b)), imagem = f\<rparr>"
  have "livro_id ?l = proximoLivro d \<and> snd (adicionarLivro amb d b f) =
      d\<lparr>livros := livros d @ [?l], proximoLivro := Suc (proximoLivro d)\<rparr>"
    using False by (simp add: adicionarLivro_def Livro_create_def Let_def split: if_splits)
  then show ?thesis by blast
qed

lemma registrar_forma:
  "snd (registrar amb d b) = d \<or>
   (\<exists>u. usuario_id u = proximoUsuario d \<and>
      snd (registrar amb d b) =
        d\<lparr>usuarios := usuarios d @ [u], proximoUsuario := Suc (proximoUsuario d)\<rparr>)"
proof (cases "snd (registrar amb d b) = d")
  case True
  then show ?thesis by blast
next
  case False
  let ?u = "\<lparr>usuario_id = proximoUsuario d, nome = the (texto_de amb (req_nome b)),
    email = the (texto_de amb (req_email b)), senha = the (texto_de amb (req_senha b))\<rparr>"
  have "usuario_id ?u = proximoUsuario d \<and> snd (registrar amb d b) =
      d\<lparr>usuarios := usuarios d @ [?u], proximoUsuario := Suc (proximoUsuario d)\<rparr>"
    using False by (simp add: registrar_def Usuario_create_def Let_def split: if_splits)
  then show ?thesis by blast
qed

lemma login_forma: "snd (login amb d e s) = d"
  by (simp add: login_def split: option.splits)

lemma atualizarLivro_forma:
  "\<exists>g. (\<forall>x. livro_id (g x) = livro_id x) \<and>
     snd (atualizarLivro amb d k b f) =
       d\<lparr>livros := map (\<lambda>r. if livro_id r = k then g r else r) (livros d)\<rparr>"
proof -
  have nada: "snd (atualizarLivro amb d k b f) = d \<Longrightarrow> ?thesis"
  proof -
    assume "snd (atualizarLivro amb d k b f) = d"
    then have "snd (atualizarLivro amb d k b f) =
        d\<lparr>livros := map (\<lambda>r. if livro_id r = k then (\<lambda>x. x) r else r) (livros d)\<rparr>"
      by simp
    then show ?thesis by (intro exI [of _ "\<lambda>x. x"]) simp
  qed
  show ?thesis
  proof (cases "findByPk livro_id (livros d) k")
    case None
    then show ?thesis by (intro nada) (simp add: atualizarLivro_nada)
  next
    case (Some l)
    show ?thesis
    proof (cases "livro_aceito amb l b")
      case True
      from atualizarLivro_aceito [OF Some True, of f] show ?thesis by auto
    next
      case False
      then show ?thesis by (intro nada) (simp add: atualizarLivro_recusado [OF Some])
    qed
  qed
qed

lemma atualizarUsuario_forma:
  "\<exists>g. (\<forall>x. usuario_id (g x) = usuario_id x) \<and>
     snd (atualizarUsuario amb d k b) =
       d\<lparr>usuarios := map (\<lambda>r. if usuario_id r = k then g r else r) (usuarios d)\<rparr>"
proof -
  have nada: "snd (atualizarUsuario amb d k b) = d \<Longrightarrow> ?thesis"
  proof -
    assume "snd (atualizarUsuario amb d k b) = d"
    then have "snd (atualizarUsuario amb d k b) =
        d\<lparr>usuarios := map (\<lambda>r. if usuario_id r = k then (\<lambda>x. x) r else r) (usuarios d)\<rparr>"
      by simp
    then show ?thesis by (intro exI [of _ "\<lambda>x. x"]) simp
  qed
  show ?thesis
  proof (cases "findByPk usuario_id (usuarios d) k")
    case None
    then show ?thesis by (intro nada) (simp add: atualizarUsuario_def)
  next
    case (Some u)
    define i0 :: "(usuario_mem, usuario) instancia_js" where
      "i0 = carregar_js (memoria_usuario u)"
    define i1 where "i1 = set_nome amb (ou (req_nome b) (mem_nome (memoria i0))) i0"
    define i2 where "i2 = set_email amb (ou (req_email b) (mem_email (memoria i1))) i1"
    define i3 where "i3 = set_senha amb (ou (req_senha b) (mem_senha (memoria i2))) i2"
    have c0: "\<And>g x. gravacao i0 = Some g \<Longrightarrow> usuario_id (g x) = usuario_id x"
      by (auto simp: i0_def carregar_js_def)
    have c1: "\<And>g x. gravacao i1 = Some g \<Longrightarrow> usuario_id (g x) = usuario_id x"
      unfolding i1_def set_nome_def by (erule atribuir_js_chave [rotated 2]) (auto simp: c0)
    have c2: "\<And>g x. gravacao i2 = Some g \<Longrightarrow> usuario_id (g x) = usuario_id x"
      unfolding i2_def set_email_def by (erule atribuir_js_chave [rotated 2]) (auto simp: c1)
    have c3: "\<And>g x. gravacao i3 = Some g \<Longrightarrow> usuario_id (g x) = usuario_id x"
      unfolding i3_def set_senha_def by (erule atribuir_js_chave [rotated 2]) (auto simp: c2)
    have run: "snd (atualizarUsuario amb d k b) = d \<or>
        (\<exists>g. gravacao i3 = Some g \<and> snd (atualizarUsuario amb d k b) =
           d\<lparr>usuarios := map (\<lambda>r. if usuario_id r = k then g r else r) (usuarios d)\<rparr>)"
      using Some
      unfolding atualizarUsuario_def Let_def i3_def i2_def i1_def i0_def
      by (auto simp: save_js_def split: option.splits)
    then show ?thesis
    proof
      assume "snd (atualizarUsuario amb d k b) = d"
      then show ?thesis by (rule nada)
    next
      assume "\<exists>g. gravacao i3 = Some g \<and> snd (atualizarUsuario amb d k b) =
        d\<lparr>usuarios := map (\<lambda>r. if usuario_id r = k then g r else r) (usuarios d)\<rparr>"
      then obtain g where g: "gravacao i3 = Some g"
        and r: "snd (atualizarUsuario amb d k b) =
          d\<lparr>usuarios := map (\<lambda>r. if usuario_id r = k then g r else r) (usuarios d)\<rparr>"
        by blast
      show ?thesis using c3 [OF g] r by (intro exI [of _ g]) simp
    qed
  qed
qed

lemma atualizarLivro_resto:
  "usuarios (snd (atualizarLivro amb d k b f)) = usuarios d"
  "emprestimos (snd (atualizarLivro amb d k b f)) = emprestimos d"
  "proximoUsuario (snd (atualizarLivro amb d k b f)) = proximoUsuario d"
  "proximoLivro (snd (atualizarLivro amb d k b f)) = proximoLivro d"
  "proximoEmprestimo (snd (atualizarLivro amb d k b f)) = proximoEmprestimo d"
  using atualizarLivro_forma [where amb = amb and d = d and k = k and b = b and f = f] by auto

lemma atualizarUsuario_resto:
  "livros (snd (atualizarUsuario amb d k b)) = livros d"
  "emprestimos (snd (atualizarUsuario amb d k b)) = emprestimos d"
  "proximoUsuario (snd (atualizarUsuario amb d k b)) = proximoUsuario d"
  "proximoLivro (snd (atualizarUsuario amb d k b)) = proximoLivro d"
  "proximoEmprestimo (snd (atualizarUsuario amb d k b)) = proximoEmprestimo d"
  using atualizarUsuario_forma [where amb = amb and d = d and k = k and b = b] by auto

lemma adicionarLivro_resto:
  "usuarios (snd (adicionarLivro amb d b f)) = usuarios d"
  "emprestimos (snd (adicionarLivro amb d b f)) = emprestimos d"
  "proximoUsuario (snd (adicionarLivro amb d b f)) = proximoUsuario d"
  "proximoEmprestimo (snd (adicionarLivro amb d b f)) = proximoEmprestimo d"
  using adicionarLivro_forma [of amb d b f] by auto

lemma registrar_resto:
  "livros (snd (registrar amb d b)) = livros d"
  "emprestimos (snd (registrar amb d b)) = emprestimos d"
  "proximoLivro (snd (registrar amb d b)) = proximoLivro d"
  "proximoEmprestimo (snd (registrar amb d b)) = proximoEmprestimo d"
  using registrar_forma [of amb d b] by auto

subsection \<open>Primary keys stay unique\<close>

lemma apos_integro:
  assumes "integro d"
  shows "integro (apos amb d op)"
proof (cases op)
  case (AdicionarLivro b f)
  from adicionarLivro_forma [of amb d b f] show ?thesis
  proof
    assume "snd (adicionarLivro amb d b f) = d"
    with assms AdicionarLivro show ?thesis by (simp add: apos_def)
  next
    assume "\<exists>l. livro_id l = proximoLivro d \<and> snd (adicionarLivro amb d b f) =
      d\<lparr>livros := livros d @ [l], proximoLivro := Suc (proximoLivro d)\<rparr>"
    then obtain l where l: "livro_id l = proximoLivro d"
      and r: "snd (adicionarLivro amb d b f) =
        d\<lparr>livros := livros d @ [l], proximoLivro := Suc (proximoLivro d)\<rparr>"
      by blast
    from assms have "distinct (map livro_id (livros d))"
      "list_all (\<lambda>r. livro_id r < proximoLivro d) (livros d)"
      by (simp_all add: integro_def)
    from distinct_novo [OF this l] assms show ?thesis
      by (simp add: AdicionarLivro apos_def r integro_def)
  qed
next
  case (AtualizarLivro k b f)
  from atualizarLivro_forma [where amb = amb and d = d and k = k and b = b and f = f] obtain g where
    g: "\<And>x. livro_id (g x) = livro_id x"
    and r: "snd (atualizarLivro amb d k b f) =
      d\<lparr>livros := map (\<lambda>r. if livro_id r = k then g r else r) (livros d)\<rparr>"
    by blast
  have "map livro_id (map (\<lambda>r. if livro_id r = k then g r else r) (livros d)) =
      map livro_id (livros d)"
    by (rule chaves_save) (rule g)
  moreover have "list_all (\<lambda>r. livro_id r < proximoLivro d)
      (map (\<lambda>r. if livro_id r = k then g r else r) (livros d)) =
      list_all (\<lambda>r. livro_id r < proximoLivro d) (livros d)"
    by (rule list_all_save) (rule g)
  ultimately show ?thesis
    using assms by (simp add: AtualizarLivro apos_def r integro_def del: map_map)
next
  case (Registrar b)
  from registrar_forma [of amb d b] show ?thesis
  proof
    assume "snd (registrar amb d b) = d"
    with assms Registrar show ?thesis by (simp add: apos_def)
  next
    assume "\<exists>u. usuario_id u = proximoUsuario d \<and> snd (registrar amb d b) =
      d\<lparr>usuarios := usuarios d @ [u], proximoUsuario := Suc (proximoUsuario d)\<rparr>"
    then obtain u where u: "usuario_id u = proximoUsuario d"
      and r: "snd (registrar amb d b) =
        d\<lparr>usuarios := usuarios d @ [u], proximoUsuario := Suc (proximoUsuario d)\<rparr>"
      by blast
    from assms have "distinct (map usuario_id (usuarios d))"
      "list_all (\<lambda>r. usuario_id r < proximoUsuario d) (usuarios d)"
      by (simp_all add: integro_def)
    from distinct_novo [OF this u] assms show ?thesis
      by (simp add: Registrar apos_def r integro_def)
  qed
next
  case (AtualizarUsuario k b)
  from atualizarUsuario_forma [where amb = amb and d = d and k = k and b = b] obtain g where
    g: "\<And>x. usuario_id (g x) = usuario_id x"
    and r: "snd (atualizarUsuario amb d k b) =
      d\<lparr>usuarios := map (\<lambda>r. if usuario_id r = k then g r else r) (usuarios d)\<rparr>"
    by blast
  have "map usuario_id (map (\<lambda>r. if usuario_id r = k then g r else r) (usuarios d)) =
      map usuario_id (usuarios d)"
    by (rule chaves_save) (rule g)
  moreover have "list_all (\<lambda>r. usuario_id r < proximoUsuario d)
      (map (\<lambda>r. if usuario_id r = k then g r else r) (usuarios d)) =
      list_all (\<lambda>r. usuario_id r < proximoUsuario d) (usuarios d)"
    by (rule list_all_save) (rule g)
  ultimately show ?thesis
    using assms by (simp add: AtualizarUsuario apos_def r integro_def del: map_map)
next
  case (Login e s)
  with assms show ?thesis by (simp add: apos_def login_forma)
next
  case (Alugar agora u l)
  from alugar_casos [of d u l] show ?thesis
  proof
    assume "\<exists>usr lv. findByPk usuario_id (usuarios d) u = Some usr \<and>
      findByPk livro_id (livros d) l = Some lv \<and> 0 < quantidade lv"
    then obtain usr lv where h: "findByPk usuario_id (usuarios d) u = Some usr"
      "findByPk livro_id (livros d) l = Some lv" "0 < quantidade lv"
      by blast
    note r = alugar_ok [OF h, where amb = amb and agora = agora]
    have m: "map livro_id
        (map (\<lambda>r. if livro_id r = l then r\<lparr>quantidade := quantidade lv - 1\<rparr> else r) (livros d)) =
        map livro_id (livros d)"
      by (rule chaves_save) simp
    have a: "list_all (\<lambda>r. livro_id r < proximoLivro d)
        (map (\<lambda>r. if livro_id r = l then r\<lparr>quantidade := quantidade lv - 1\<rparr> else r) (livros d)) =
        list_all (\<lambda>r. livro_id r < proximoLivro d) (livros d)"
      by (rule list_all_save) simp
    from assms have "distinct (map emprestimo_id (emprestimos d))"
      "list_all (\<lambda>r. emprestimo_id r < proximoEmprestimo d) (emprestimos d)"
      by (simp_all add: integro_def)
    from distinct_novo [OF this, of "\<lparr>emprestimo_id = proximoEmprestimo d, UsuarioId = u,
        LivroId = l, dataVencimento = gravar_data (setDate amb agora (getDate amb agora + 7)),
        renovacoes = 0\<rparr>"] m a assms
    show ?thesis
      by (simp add: Alugar apos_def r integro_def del: map_map)
  next
    assume "findByPk usuario_id (usuarios d) u = None \<or>
      findByPk livro_id (livros d) l = None \<or>
      (\<exists>lv. findByPk livro_id (livros d) l = Some lv \<and> quantidade lv \<le> 0)"
    from alugar_nada [OF this, where amb = amb and agora = agora] assms show ?thesis
      by (simp add: Alugar apos_def)
  qed
next
  case (Devolver k)
  from devolver_casos [of d k] show ?thesis
  proof (elim disjE exE conjE)
    fix e l
    assume h: "findByPk emprestimo_id (emprestimos d) k = Some e"
      "findByPk livro_id (livros d) (LivroId e) = Some l"
    note r = devolver_ok [OF h]
    have m: "map livro_id
        (map (\<lambda>r. if livro_id r = LivroId e then r\<lparr>quantidade := quantidade l + 1\<rparr> else r)
          (livros d)) = map livro_id (livros d)"
      by (rule chaves_save) simp
    have a: "list_all (\<lambda>r. livro_id r < proximoLivro d)
        (map (\<lambda>r. if livro_id r = LivroId e then r\<lparr>quantidade := quantidade l + 1\<rparr> else r)
          (livros d)) = list_all (\<lambda>r. livro_id r < proximoLivro d) (livros d)"
      by (rule list_all_save) simp
    from assms m a show ?thesis
      by (simp add: Devolver apos_def r integro_def distinct_map_filter list_all_iff
          del: map_map)
  next
    assume "findByPk emprestimo_id (emprestimos d) k = None"
    from devolver_sem_emprestimo [OF this] assms show ?thesis
      by (simp add: Devolver apos_def)
  next
    fix e
    assume "findByPk emprestimo_id (emprestimos d) k = Some e"
      "findByPk livro_id (livros d) (LivroId e) = None"
    from devolver_sem_livro [OF this] assms show ?thesis
      by (simp add: Devolver apos_def)
  qed
next
  case (Renovar k)
  from renovar_casos [of d k] show ?thesis
  proof
    assume "\<exists>e. findByPk emprestimo_id (emprestimos d) k = Some e \<and> renovacoes e < 2"
    then obtain e where h: "findByPk emprestimo_id (emprestimos d) k = Some e"
      "renovacoes e < 2"
      by blast
    note r = renovar_ok [OF h, where amb = amb]
    have m: "map emprestimo_id
        (map (\<lambda>r. if emprestimo_id r = k then r\<lparr>renovacoes := renovacoes e + 1\<rparr> else r)
          (emprestimos d)) = map emprestimo_id (emprestimos d)"
      by (rule chaves_save) simp
    have a: "list_all (\<lambda>r. emprestimo_id r < proximoEmprestimo d)
        (map (\<lambda>r. if emprestimo_id r = k then r\<lparr>renovacoes := renovacoes e + 1\<rparr> else r)
          (emprestimos d)) =
        list_all (\<lambda>r. emprestimo_id r < proximoEmprestimo d) (emprestimos d)"
      by (rule list_all_save) simp
    from assms m a show ?thesis
      by (simp add: Renovar apos_def r integro_def del: map_map)
  next
    assume "findByPk emprestimo_id (emprestimos d) k = None \<or>
      (\<exists>e. findByPk emprestimo_id (emprestimos d) k = Some e \<and> \<not> renovacoes e < 2)"
    from renovar_nada [OF this, where amb = amb] assms show ?thesis
      by (simp add: Renovar apos_def)
  qed
qed

lemma alcancavel_integro: "alcancavel amb d \<Longrightarrow> integro d"
proof (induction rule: alcancavel.induct)
  case inicio
  show ?case by (simp add: integro_def db_inicial_def)
next
  case (passo d op)
  then show ?case by (simp add: apos_integro)
qed

lemma alcancavel_executar: "alcancavel amb d \<Longrightarrow> alcancavel amb (executar amb d ops)"
  unfolding executar_def
  by (induction ops arbitrary: d) (auto intro: alcancavel.passo)


subsection \<open>The renewal count stays within its bounds\<close>

lemma apos_limite:
  assumes "\<forall>e \<in> set (emprestimos d). 0 \<le> renovacoes e \<and> renovacoes e \<le> 2"
  shows "\<forall>e \<in> set (emprestimos (apos amb d op)). 0 \<le> renovacoes e \<and> renovacoes e \<le> 2"
proof (cases op)
  case (AdicionarLivro b f)
  with assms show ?thesis by (simp add: apos_def adicionarLivro_resto)
next
  case (AtualizarLivro k b f)
  with assms show ?thesis by (simp add: apos_def atualizarLivro_resto)
next
  case (Registrar b)
  with assms show ?thesis by (simp add: apos_def registrar_resto)
next
  case (AtualizarUsuario k b)
  with assms show ?thesis by (simp add: apos_def atualizarUsuario_resto)
next
  case (Login e s)
  with assms show ?thesis by (simp add: apos_def login_forma)
next
  case (Alugar agora u l)
  from alugar_casos [of d u l] show ?thesis
  proof
    assume "\<exists>usr lv. findByPk usuario_id (usuarios d) u = Some usr \<and>
      findByPk livro_id (livros d) l = Some lv \<and> 0 < quantidade lv"
    then obtain usr lv where h: "findByPk usuario_id (usuarios d) u = Some usr"
      "findByPk livro_id (livros d) l = Some lv" "0 < quantidade lv"
      by blast
    from assms show ?thesis
      by (auto simp: Alugar apos_def alugar_ok [OF h])
  next
    assume "findByPk usuario_id (usuarios d) u = None \<or>
      findByPk livro_id (livros d) l = None \<or>
      (\<exists>lv. findByPk livro_id (livros d) l = Some lv \<and> quantidade lv \<le> 0)"
    from alugar_nada [OF this, where amb = amb and agora = agora] assms show ?thesis
      by (simp add: Alugar apos_def)
  qed
next
  case (Devolver k)
  from devolver_casos [of d k] show ?thesis
  proof (elim disjE exE conjE)
    fix e l
    assume h: "findByPk emprestimo_id (emprestimos d) k = Some e"
      "findByPk livro_id (livros d) (LivroId e) = Some l"
    from assms show ?thesis
      by (auto simp: Devolver apos_def devolver_ok [OF h])
  next
    assume "findByPk emprestimo_id (emprestimos d) k = None"
    from devolver_sem_emprestimo [OF this] assms show ?thesis
      by (simp add: Devolver apos_def)
  next
    fix e
    assume "findByPk emprestimo_id (emprestimos d) k = Some e"
      "findByPk livro_id (livros d) (LivroId e) = None"
    from devolver_sem_livro [OF this] assms show ?thesis
      by (simp add: Devolver apos_def)
  qed
next
  case (Renovar k)
  from renovar_casos [of d k] show ?thesis
  proof
    assume "\<exists>e. findByPk emprestimo_id (emprestimos d) k = Some e \<and> renovacoes e < 2"
    then obtain e where h: "findByPk emprestimo_id (emprestimos d) k = Some e"
      "renovacoes e < 2"
      by blast
    from h(1) have "e \<in> set (emprestimos d)" by (simp add: findByPk_Some)
    with assms have "0 \<le> renovacoes e" by blast
    with assms h(2) show ?thesis
      by (auto simp: Renovar apos_def renovar_ok [OF h, where amb = amb])
  next
    assume "findByPk emprestimo_id (emprestimos d) k = None \<or>
      (\<exists>e. findByPk emprestimo_id (emprestimos d) k = Some e \<and> \<not> renovacoes e < 2)"
    from renovar_nada [OF this, where amb = amb] assms show ?thesis
      by (simp add: Renovar apos_def)
  qed
qed

lemma alcancavel_limite:
  "alcancavel amb d \<Longrightarrow> \<forall>e \<in> set (emprestimos d). 0 \<le> renovacoes e \<and> renovacoes e \<le> 2"
proof (induction rule: alcancavel.induct)
  case inicio
  show ?case by (simp add: db_inicial_def)
next
  case (passo d op)
  from passo.IH show ?case by (rule apos_limite)
qed

lemma exemplos_alcancaveis:
  "alcancavel exemplo_amb exemplo_db" "alcancavel exemplo_amb exemplo_emprestado"
  "alcancavel exemplo_amb exemplo_renovado"
proof -
  show a: "alcancavel exemplo_amb exemplo_db"
    unfolding exemplo_db_def by (rule alcancavel_executar) (rule alcancavel.inicio)
  show b: "alcancavel exemplo_amb exemplo_emprestado"
    unfolding exemplo_emprestado_def using a by (rule alcancavel.passo)
  show "alcancavel exemplo_amb exemplo_renovado"
    unfolding exemplo_renovado_def using b by (rule alcancavel_executar)
qed

subsection \<open>What login does\<close>

lemma list_ex_textos:
  assumes "list_all (\<lambda>v. case v of JStr s \<Rightarrow> True | _ \<Rightarrow> False) vs"
  shows "list_ex (\<lambda>v. case v of JStr s \<Rightarrow> P s | _ \<Rightarrow> False) vs \<longleftrightarrow>
     (\<exists>x \<in> set (map (\<lambda>v. case v of JStr s \<Rightarrow> s | _ \<Rightarrow> []) vs). P x)"
  using assms by (induction vs) (auto split: jsval.splits)

lemma filtro_textos:
  assumes "textos v = Some xs"
  shows "\<exists>p. filtro amb v = Some p \<and> (\<forall>c. p c \<longleftrightarrow> (\<exists>x \<in> set xs. igual amb c x))"
proof (cases v)
  case (JArr vs)
  with assms have todos: "list_all (\<lambda>v. case v of JStr s \<Rightarrow> True | _ \<Rightarrow> False) vs"
    and xs: "xs = map (\<lambda>v. case v of JStr s \<Rightarrow> s | _ \<Rightarrow> []) vs"
    by (auto simp: textos_def split: if_splits)
  show ?thesis
    using todos by (simp add: JArr xs list_ex_textos [OF todos])
qed (use assms in \<open>auto simp: textos_def\<close>)

lemma login_filtros:
  assumes "filtro amb e = Some p" and "filtro amb s = Some q"
  shows "login amb d e s =
     (case find (\<lambda>u. p (email u) \<and> q (senha u)) (usuarios d) of
        Some u \<Rightarrow> ((200, JUsuario u), d)
      | None \<Rightarrow> ((401, Erro CredenciaisInvalidas), d))"
  using assms by (simp add: login_def)

lemma login_sem_filtro:
  assumes "filtro amb e = None \<or> filtro amb s = None"
  shows "login amb d e s = ((400, Erro ErroDoBanco), d)"
  using assms by (auto simp: login_def split: option.splits)

lemma login_achado:
  assumes "filtro amb e = Some p" and "filtro amb s = Some q"
  shows "fst (fst (login amb d e s)) = 200 \<longleftrightarrow>
       (\<exists>u \<in> set (usuarios d). p (email u) \<and> q (senha u))"
    and "fst (fst (login amb d e s)) = 200 \<Longrightarrow>
       \<exists>u \<in> set (usuarios d). p (email u) \<and> q (senha u) \<and>
         snd (fst (login amb d e s)) = JUsuario u"
    and "fst (fst (login amb d e s)) \<noteq> 200 \<Longrightarrow>
       fst (login amb d e s) = (401, Erro CredenciaisInvalidas)"
proof -
  note r = login_filtros [OF assms, of d]
  show "fst (fst (login amb d e s)) = 200 \<longleftrightarrow>
      (\<exists>u \<in> set (usuarios d). p (email u) \<and> q (senha u))"
  proof (cases "find (\<lambda>u. p (email u) \<and> q (senha u)) (usuarios d)")
    case None
    then have "\<not> (\<exists>u \<in> set (usuarios d). p (email u) \<and> q (senha u))"
      by (auto simp: find_None_iff)
    with None show ?thesis by (simp add: r)
  next
    case (Some u)
    then have "u \<in> set (usuarios d) \<and> p (email u) \<and> q (senha u)"
      by (auto simp: find_Some_iff)
    with Some show ?thesis by (auto simp: r)
  qed
  show "fst (fst (login amb d e s)) = 200 \<Longrightarrow>
      \<exists>u \<in> set (usuarios d). p (email u) \<and> q (senha u) \<and>
        snd (fst (login amb d e s)) = JUsuario u"
  proof (cases "find (\<lambda>u. p (email u) \<and> q (senha u)) (usuarios d)")
    case None
    assume "fst (fst (login amb d e s)) = 200"
    with None show ?thesis by (simp add: r)
  next
    case (Some u)
    then have "u \<in> set (usuarios d) \<and> p (email u) \<and> q (senha u)"
      by (auto simp: find_Some_iff)
    with Some show ?thesis by (auto simp: r)
  qed
  show "fst (fst (login amb d e s)) \<noteq> 200 \<Longrightarrow>
      fst (login amb d e s) = (401, Erro CredenciaisInvalidas)"
    by (cases "find (\<lambda>u. p (email u) \<and> q (senha u)) (usuarios d)") (simp_all add: r)
qed

section \<open>Copies held: available quantity plus open loans\<close>

text \<open>
  C1, as the claim states it, fails. A book has the one field \<open>quantidade\<close>; the copies the
  library holds of it are that quantity plus its open loans. In \<open>exemplo_emprestado\<close> the
  one copy of book 1 is on loan: quantity 0, one open loan, one copy held. A book update
  that submits \<open>quantidade = 5\<close> stores 5 as the available quantity whatever is on loan;
  afterwards quantity plus open loans is 6, which is neither the total before the update
  (1) nor the submitted quantity (5).
\<close>

theorem acervo_conservado_contraexemplo:
  "acervo exemplo_emprestado 1 = Some 1 \<and>
   emprestimosAbertos exemplo_emprestado 1 = 1 \<and>
   req_quantidade exemplo_reposicao = JNum 5 \<and>
   acervo (apos exemplo_amb exemplo_emprestado (AtualizarLivro 1 exemplo_reposicao None)) 1 =
     Some 6"
  by (simp add: exemplo_emprestado_eq exemplo_reposicao_def exemplo_vazio_def acervo_def
      emprestimosAbertos_def apos_def orm_defs rota_defs exemplo_amb_defs Let_def)

text \<open>
  C1, amended. For every existing book, in a database with unique primary keys: borrow,
  renew and return, as every other operation that is not an accepted update of this book
  with a new quantity, leave the book's available quantity plus the number of open loans
  referencing it unchanged. An update of the book that the store accepts and whose
  submitted \<open>quantidade\<close> is not falsy (the string "0" of a multipart form is not) and
  differs from the stored one stores the submitted value, as the store converts it, as the
  available quantity, so that the sum becomes that value plus the number of open loans.
\<close>

theorem acervo_conservado:
  assumes "integro d" and "findByPk livro_id (livros d) k = Some l"
  shows "acervo (apos amb d op) k =
     (case op of
        AtualizarLivro j b f \<Rightarrow>
          if j = k \<and> livro_aceito amb l b \<and>
             \<not> falsy (req_quantidade b) \<and> req_quantidade b \<noteq> JNum (of_int (quantidade l))
          then Some (the (inteiro_de amb (req_quantidade b)) + int (emprestimosAbertos d k))
          else acervo d k
      | _ \<Rightarrow> acervo d k)"
proof (cases op)
  case (AdicionarLivro b f)
  from adicionarLivro_forma [of amb d b f]
  have "findByPk livro_id (livros (snd (adicionarLivro amb d b f))) k = Some l"
    using assms(2) by (auto simp: findByPk_def find_novo)
  with assms(2) show ?thesis
    by (simp add: AdicionarLivro apos_def acervo_def emprestimosAbertos_def adicionarLivro_resto)
next
  case (AtualizarLivro j b f)
  show ?thesis
  proof (cases "j = k")
    case True
    show ?thesis
    proof (cases "livro_aceito amb l b")
      case aceito: True
      from atualizarLivro_aceito [OF assms(2) aceito, of f] obtain g m where
        g: "\<And>x. livro_id (g x) = livro_id x"
        and gl: "g l = livro_atualizado amb l b f"
        and r: "atualizarLivro amb d k b f =
          ((200, JLivro m),
           d\<lparr>livros := map (\<lambda>r. if livro_id r = k then g r else r) (livros d)\<rparr>)"
        by blast
      have kl: "livro_id l = k" using assms(2) by (simp add: findByPk_Some)
      have "findByPk livro_id (map (\<lambda>r. if livro_id r = k then g r else r) (livros d)) k =
          Some (g l)"
        using assms(2) kl unfolding findByPk_def by (simp add: find_save [of livro_id g, OF g])
      then have "acervo (apos amb d op) k =
          Some (quantidade (livro_atualizado amb l b f) + int (emprestimosAbertos d k))"
        by (simp add: AtualizarLivro True apos_def r acervo_def emprestimosAbertos_def gl)
      then show ?thesis
        using assms(2) aceito
        by (auto simp: AtualizarLivro True acervo_def livro_atualizado_def muda_def)
    next
      case False
      with atualizarLivro_recusado [OF assms(2) False, of f] show ?thesis
        by (simp add: AtualizarLivro True apos_def)
    qed
  next
    case False
    from atualizarLivro_forma [where amb = amb and d = d and k = j and b = b and f = f]
    obtain g where
      g: "\<And>x. livro_id (g x) = livro_id x"
      and r: "snd (atualizarLivro amb d j b f) =
        d\<lparr>livros := map (\<lambda>r. if livro_id r = j then g r else r) (livros d)\<rparr>"
      by blast
    have "findByPk livro_id (map (\<lambda>r. if livro_id r = j then g r else r) (livros d)) k =
        findByPk livro_id (livros d) k"
      unfolding findByPk_def using False by (simp add: find_save_outro [of livro_id g, OF g])
    then show ?thesis
      using False by (simp add: AtualizarLivro apos_def r acervo_def emprestimosAbertos_def)
  qed
next
  case (Registrar b)
  then show ?thesis
    by (simp add: apos_def acervo_def emprestimosAbertos_def registrar_resto)
next
  case (AtualizarUsuario j b)
  then show ?thesis
    by (simp add: apos_def acervo_def emprestimosAbertos_def atualizarUsuario_resto)
next
  case (Login e s)
  then show ?thesis by (simp add: apos_def login_forma)
next
  case (Alugar agora u j)
  from alugar_casos [of d u j] show ?thesis
  proof
    assume "\<exists>usr lv. findByPk usuario_id (usuarios d) u = Some usr \<and>
      findByPk livro_id (livros d) j = Some lv \<and> 0 < quantidade lv"
    then obtain usr lv where h: "findByPk usuario_id (usuarios d) u = Some usr"
      "findByPk livro_id (livros d) j = Some lv" "0 < quantidade lv"
      by blast
    note r = alugar_ok [OF h, where amb = amb and agora = agora]
    show ?thesis
    proof (cases "j = k")
      case True
      with h(2) assms(2) have lv: "lv = l" by simp
      have kl: "livro_id l = k" using assms(2) by (simp add: findByPk_Some)
      have "findByPk livro_id
          (map (\<lambda>r. if livro_id r = k then r\<lparr>quantidade := quantidade l - 1\<rparr> else r) (livros d))
          k = Some (l\<lparr>quantidade := quantidade l - 1\<rparr>)"
        using assms(2) kl unfolding findByPk_def
        by (simp add: find_save [of livro_id "\<lambda>r. r\<lparr>quantidade := quantidade l - 1\<rparr>"])
      with assms(2) show ?thesis
        by (simp add: Alugar True apos_def r [unfolded True lv] acervo_def
            emprestimosAbertos_def)
    next
      case False
      have "findByPk livro_id
          (map (\<lambda>r. if livro_id r = j then r\<lparr>quantidade := quantidade lv - 1\<rparr> else r) (livros d))
          k = findByPk livro_id (livros d) k"
        unfolding findByPk_def using False
        by (simp add: find_save_outro [of livro_id "\<lambda>r. r\<lparr>quantidade := quantidade lv - 1\<rparr>"])
      with False show ?thesis
        by (simp add: Alugar apos_def r acervo_def emprestimosAbertos_def)
    qed
  next
    assume "findByPk usuario_id (usuarios d) u = None \<or>
      findByPk livro_id (livros d) j = None \<or>
      (\<exists>lv. findByPk livro_id (livros d) j = Some lv \<and> quantidade lv \<le> 0)"
    from alugar_nada [OF this, where amb = amb and agora = agora] show ?thesis
      by (simp add: Alugar apos_def)
  qed
next
  case (Devolver j)
  from devolver_casos [of d j] show ?thesis
  proof (elim disjE exE conjE)
    fix e l'
    assume h: "findByPk emprestimo_id (emprestimos d) j = Some e"
      "findByPk livro_id (livros d) (LivroId e) = Some l'"
    note r = devolver_ok [OF h]
    have de: "distinct (map emprestimo_id (emprestimos d))"
      using assms(1) by (simp add: integro_def)
    have rem: "filter (\<lambda>r. emprestimo_id r \<noteq> j) (emprestimos d) = remove1 e (emprestimos d)"
      by (rule destroy_remove1 [OF de h(1)])
    have mem: "e \<in> set (emprestimos d)" using h(1) by (simp add: findByPk_Some)
    note cnt = conta_remove1 [OF mem, of "\<lambda>e. LivroId e = k"]
    show ?thesis
    proof (cases "LivroId e = k")
      case True
      with h(2) assms(2) have l': "l' = l" by simp
      have kl: "livro_id l = k" using assms(2) by (simp add: findByPk_Some)
      have "findByPk livro_id
          (map (\<lambda>r. if livro_id r = k then r\<lparr>quantidade := quantidade l + 1\<rparr> else r) (livros d))
          k = Some (l\<lparr>quantidade := quantidade l + 1\<rparr>)"
        using assms(2) kl unfolding findByPk_def
        by (simp add: find_save [of livro_id "\<lambda>r. r\<lparr>quantidade := quantidade l + 1\<rparr>"])
      with assms(2) cnt True show ?thesis
        by (simp add: Devolver apos_def r [unfolded l'] rem acervo_def emprestimosAbertos_def)
    next
      case False
      have "findByPk livro_id
          (map (\<lambda>r. if livro_id r = LivroId e then r\<lparr>quantidade := quantidade l' + 1\<rparr> else r)
            (livros d)) k = findByPk livro_id (livros d) k"
        unfolding findByPk_def using False
        by (simp add: find_save_outro [of livro_id "\<lambda>r. r\<lparr>quantidade := quantidade l' + 1\<rparr>"])
      with cnt False show ?thesis
        by (simp add: Devolver apos_def r rem acervo_def emprestimosAbertos_def)
    qed
  next
    assume "findByPk emprestimo_id (emprestimos d) j = None"
    from devolver_sem_emprestimo [OF this] show ?thesis
      by (simp add: Devolver apos_def)
  next
    fix e
    assume "findByPk emprestimo_id (emprestimos d) j = Some e"
      "findByPk livro_id (livros d) (LivroId e) = None"
    from devolver_sem_livro [OF this] show ?thesis
      by (simp add: Devolver apos_def)
  qed
next
  case (Renovar j)
  from renovar_casos [of d j] show ?thesis
  proof
    assume "\<exists>e. findByPk emprestimo_id (emprestimos d) j = Some e \<and> renovacoes e < 2"
    then obtain e where h: "findByPk emprestimo_id (emprestimos d) j = Some e"
      "renovacoes e < 2"
      by blast
    have "length (filter (\<lambda>e. LivroId e = k)
        (map (\<lambda>r. if emprestimo_id r = j then r\<lparr>renovacoes := renovacoes e + 1\<rparr> else r)
          (emprestimos d))) = length (filter (\<lambda>e. LivroId e = k) (emprestimos d))"
      by (rule conta_save) simp
    then show ?thesis
      by (simp add: Renovar apos_def renovar_ok [OF h, where amb = amb] acervo_def
          emprestimosAbertos_def)
  next
    assume "findByPk emprestimo_id (emprestimos d) j = None \<or>
      (\<exists>e. findByPk emprestimo_id (emprestimos d) j = Some e \<and> \<not> renovacoes e < 2)"
    from renovar_nada [OF this, where amb = amb] show ?thesis
      by (simp add: Renovar apos_def)
  qed
qed

theorem acervo_conservado_exemplo:
  "integro exemplo_emprestado \<and>
   findByPk livro_id (livros exemplo_emprestado) 1 =
     Some \<lparr>livro_id = 1, titulo = ''A'', autor = ''B'', quantidade = 0, editora = ''E'',
       assunto = ''S'', faixaEtaria = Livre, imagem = None\<rparr> \<and>
   acervo exemplo_emprestado 1 = Some 1 \<and>
   acervo (apos exemplo_amb exemplo_emprestado (Devolver 1)) 1 = Some 1 \<and>
   acervo (apos exemplo_amb exemplo_emprestado (Renovar 1)) 1 = Some 1 \<and>
   acervo (apos exemplo_amb exemplo_emprestado (Alugar exemplo_agora 2 1)) 1 = Some 1 \<and>
   acervo (apos exemplo_amb exemplo_emprestado (AtualizarLivro 1 exemplo_corpo None)) 1 =
     Some 1 \<and>
   acervo (apos exemplo_amb exemplo_emprestado (AtualizarLivro 1 exemplo_lista None)) 1 =
     Some 1 \<and>
   acervo (apos exemplo_amb exemplo_emprestado (AtualizarLivro 1 exemplo_multipart None)) 1 =
     Some 1 \<and>
   acervo (apos exemplo_amb exemplo_emprestado (AtualizarLivro 1 exemplo_reposicao None)) 1 =
     Some 6"
proof -
  let ?l = "\<lparr>livro_id = 1, titulo = ''A'', autor = ''B'', quantidade = 0, editora = ''E'',
    assunto = ''S'', faixaEtaria = Livre, imagem = None\<rparr>"
  have i: "integro exemplo_emprestado"
    by (simp add: integro_def exemplo_emprestado_eq)
  have l: "findByPk livro_id (livros exemplo_emprestado) 1 = Some ?l"
    by (simp add: exemplo_emprestado_eq findByPk_def)
  have a: "acervo exemplo_emprestado 1 = Some 1"
    by (simp add: exemplo_emprestado_eq acervo_def emprestimosAbertos_def findByPk_def)
  have n: "emprestimosAbertos exemplo_emprestado 1 = 1"
    by (simp add: exemplo_emprestado_eq emprestimosAbertos_def)
  note t = acervo_conservado [OF i l, where amb = exemplo_amb]
  have "acervo (apos exemplo_amb exemplo_emprestado (Devolver 1)) 1 = Some 1"
    using t [of "Devolver 1"] a by simp
  moreover have "acervo (apos exemplo_amb exemplo_emprestado (Renovar 1)) 1 = Some 1"
    using t [of "Renovar 1"] a by simp
  moreover have
    "acervo (apos exemplo_amb exemplo_emprestado (Alugar exemplo_agora 2 1)) 1 = Some 1"
    using t [of "Alugar exemplo_agora 2 1"] a by simp
  moreover have
    "acervo (apos exemplo_amb exemplo_emprestado (AtualizarLivro 1 exemplo_corpo None)) 1 =
      Some 1"
    using t [of "AtualizarLivro 1 exemplo_corpo None"] a
    by (simp add: exemplo_corpo_def falsy_def)
  moreover have
    "acervo (apos exemplo_amb exemplo_emprestado (AtualizarLivro 1 exemplo_lista None)) 1 =
      Some 1"
    using t [of "AtualizarLivro 1 exemplo_lista None"] a
    by (simp add: exemplo_lista_def exemplo_vazio_def falsy_def)
  moreover have
    "acervo (apos exemplo_amb exemplo_emprestado (AtualizarLivro 1 exemplo_multipart None)) 1 =
      Some 1"
    using t [of "AtualizarLivro 1 exemplo_multipart None"] a n
    by (simp add: exemplo_multipart_def exemplo_vazio_def falsy_def muda_def livro_aceito_def
        exemplo_amb_defs)
  moreover have
    "acervo (apos exemplo_amb exemplo_emprestado (AtualizarLivro 1 exemplo_reposicao None)) 1 =
      Some 6"
    using t [of "AtualizarLivro 1 exemplo_reposicao None"] n
    by (simp add: exemplo_reposicao_def exemplo_vazio_def falsy_def muda_def livro_aceito_def
        exemplo_amb_defs)
  ultimately show ?thesis using i l a by blast
qed

section \<open>Borrowing refused\<close>




section \<open>Renewing a loan\<close>

text \<open>
  C3. What the code does on a renew of a loan with fewer than 2 renewals: \<open>renovar\<close>
  answers 200 and the stored renewal count is one more than before; the due date is moved
  7 days ahead only inside the \<open>Date\<close> object of the loaded instance, which is no
  assignment to the attribute, so \<open>save\<close> does not write it: the stored due date of the
  loan, as of every loan, is what it was before the renew.
\<close>

theorem renovar_nao_grava_vencimento:
  assumes "findByPk emprestimo_id (emprestimos d) k = Some e" and "renovacoes e < 2"
  shows "fst (renovar amb d k) = (200, Mensagem LivroRenovado) \<and>
     findByPk emprestimo_id (emprestimos (snd (renovar amb d k))) k =
       Some (e\<lparr>renovacoes := renovacoes e + 1\<rparr>) \<and>
     map_option dataVencimento (findByPk emprestimo_id (emprestimos (snd (renovar amb d k))) k) =
       Some (dataVencimento e) \<and>
     map dataVencimento (emprestimos (snd (renovar amb d k))) = map dataVencimento (emprestimos d)"
proof -
  note run = renovar_ok [OF assms, where amb = amb]
  have k: "emprestimo_id e = k" using assms(1) by (simp add: findByPk_Some)
  have f: "findByPk emprestimo_id (emprestimos (snd (renovar amb d k))) k =
      Some (e\<lparr>renovacoes := renovacoes e + 1\<rparr>)"
    using assms(1) k unfolding findByPk_def
    by (simp add: run find_save [of emprestimo_id "\<lambda>r. r\<lparr>renovacoes := renovacoes e + 1\<rparr>"])
  have m: "map dataVencimento (emprestimos (snd (renovar amb d k))) =
      map dataVencimento (emprestimos d)"
    by (simp add: run comp_def if_distrib [of dataVencimento])
  show ?thesis using f m by (simp add: run)
qed

theorem renovar_nao_grava_vencimento_exemplo:
  "findByPk emprestimo_id (emprestimos exemplo_emprestado) 1 =
     Some \<lparr>emprestimo_id = 1, UsuarioId = 1, LivroId = 1,
       dataVencimento = 1772955000000, renovacoes = 0\<rparr> \<and>
   fst (renovar exemplo_amb exemplo_emprestado 1) = (200, Mensagem LivroRenovado) \<and>
   findByPk emprestimo_id (emprestimos (snd (renovar exemplo_amb exemplo_emprestado 1))) 1 =
     Some \<lparr>emprestimo_id = 1, UsuarioId = 1, LivroId = 1,
       dataVencimento = 1772955000000, renovacoes = 1\<rparr>"
proof -
  have e: "findByPk emprestimo_id (emprestimos exemplo_emprestado) 1 =
      Some \<lparr>emprestimo_id = 1, UsuarioId = 1, LivroId = 1,
        dataVencimento = 1772955000000, renovacoes = 0\<rparr>"
    by (simp add: exemplo_emprestado_eq findByPk_def)
  have n: "renovacoes \<lparr>emprestimo_id = 1, UsuarioId = 1, LivroId = 1,
      dataVencimento = 1772955000000, renovacoes = 0\<rparr> < 2"
    by simp
  show ?thesis
    using e renovar_nao_grava_vencimento [OF e n, where amb = exemplo_amb] by simp
qed

section \<open>The limit of two renewals\<close>

text \<open>
  C4. In every state the program can reach from the empty database, every loan's renewal
  count is at most 2 (and at least 0); and a renew of a loan whose renewal count is 2 is
  refused with the error \<open>RenovacaoRecusada\<close> (status 400, "cannot be renewed any more")
  and leaves the database, hence the count of 2, as it was.
\<close>

theorem renovacoes_limite:
  assumes "alcancavel amb d"
  shows "(\<forall>e \<in> set (emprestimos d). 0 \<le> renovacoes e \<and> renovacoes e \<le> 2) \<and>
     (\<forall>k e. findByPk emprestimo_id (emprestimos d) k = Some e \<and> renovacoes e = 2 \<longrightarrow>
        renovar amb d k = ((400, Erro RenovacaoRecusada), d) \<and>
        map_option renovacoes (findByPk emprestimo_id (emprestimos (snd (renovar amb d k))) k) =
          Some 2)"
proof
  show "\<forall>e \<in> set (emprestimos d). 0 \<le> renovacoes e \<and> renovacoes e \<le> 2"
    using assms by (rule alcancavel_limite)
next
  show "\<forall>k e. findByPk emprestimo_id (emprestimos d) k = Some e \<and> renovacoes e = 2 \<longrightarrow>
      renovar amb d k = ((400, Erro RenovacaoRecusada), d) \<and>
      map_option renovacoes (findByPk emprestimo_id (emprestimos (snd (renovar amb d k))) k) =
        Some 2"
  proof (intro allI impI, elim conjE)
    fix k e
    assume f: "findByPk emprestimo_id (emprestimos d) k = Some e" and n: "renovacoes e = 2"
    then have "findByPk emprestimo_id (emprestimos d) k = None \<or>
        (\<exists>e. findByPk emprestimo_id (emprestimos d) k = Some e \<and> \<not> renovacoes e < 2)"
      by auto
    then have r: "renovar amb d k = ((400, Erro RenovacaoRecusada), d)"
      by (rule renovar_nada)
    with f n show "renovar amb d k = ((400, Erro RenovacaoRecusada), d) \<and>
        map_option renovacoes (findByPk emprestimo_id (emprestimos (snd (renovar amb d k))) k) =
          Some 2"
      by simp
  qed
qed

theorem renovacoes_limite_exemplo:
  "alcancavel exemplo_amb exemplo_renovado \<and>
   map_option renovacoes (findByPk emprestimo_id (emprestimos exemplo_renovado) 1) = Some 2 \<and>
   renovar exemplo_amb exemplo_renovado 1 = ((400, Erro RenovacaoRecusada), exemplo_renovado) \<and>
   map_option renovacoes
     (findByPk emprestimo_id (emprestimos (snd (renovar exemplo_amb exemplo_renovado 1))) 1) = Some 2"
proof -
  have a: "alcancavel exemplo_amb exemplo_renovado" by (rule exemplos_alcancaveis)
  have e: "findByPk emprestimo_id (emprestimos exemplo_renovado) 1 =
      Some \<lparr>emprestimo_id = 1, UsuarioId = 1, LivroId = 1,
        dataVencimento = 1772955000000, renovacoes = 2\<rparr>"
    by (simp add: exemplo_renovado_eq findByPk_def)
  have n: "renovacoes \<lparr>emprestimo_id = 1, UsuarioId = 1, LivroId = 1,
      dataVencimento = 1772955000000, renovacoes = 2\<rparr> = 2"
    by simp
  from renovacoes_limite [OF a] e n
  have "renovar exemplo_amb exemplo_renovado 1 = ((400, Erro RenovacaoRecusada), exemplo_renovado) \<and>
      map_option renovacoes
        (findByPk emprestimo_id (emprestimos (snd (renovar exemplo_amb exemplo_renovado 1))) 1) = Some 2"
    by blast
  moreover have
    "map_option renovacoes (findByPk emprestimo_id (emprestimos exemplo_renovado) 1) = Some 2"
    using e by simp
  ultimately show ?thesis using a by blast
qed

section \<open>Returning a loan\<close>

text \<open>
  C5. For every existing loan whose book exists (in a database with unique primary keys),
  \<open>devolver\<close> answers 200, adds exactly 1 to the quantity of the loan's book and changes
  no other book, and removes exactly that one loan from the loans table. A second
  \<open>devolver\<close> with the same loan id finds no loan: it answers with the error
  \<open>IdEmprestimoInvalido\<close> (status 400) and changes nothing, so the quantity is not
  incremented a second time.
\<close>

theorem devolver_uma_vez:
  assumes "integro d"
      and "findByPk emprestimo_id (emprestimos d) k = Some e"
      and "findByPk livro_id (livros d) (LivroId e) = Some l"
  shows "fst (devolver d k) = (200, Mensagem LivroDevolvido) \<and>
     livros (snd (devolver d k)) =
       map (\<lambda>r. if livro_id r = LivroId e then r\<lparr>quantidade := quantidade r + 1\<rparr> else r)
         (livros d) \<and>
     findByPk livro_id (livros (snd (devolver d k))) (LivroId e) =
       Some (l\<lparr>quantidade := quantidade l + 1\<rparr>) \<and>
     e \<in> set (emprestimos d) \<and>
     emprestimos (snd (devolver d k)) = remove1 e (emprestimos d) \<and>
     findByPk emprestimo_id (emprestimos (snd (devolver d k))) k = None \<and>
     devolver (snd (devolver d k)) k = ((400, Erro IdEmprestimoInvalido), snd (devolver d k))"
proof -
  let ?d' = "snd (devolver d k)"
  note run = devolver_ok [OF assms(2,3)]
  have dl: "distinct (map livro_id (livros d))"
    and de: "distinct (map emprestimo_id (emprestimos d))"
    using assms(1) by (simp_all add: integro_def)
  have ids: "emprestimo_id e = k" "livro_id l = LivroId e" "e \<in> set (emprestimos d)"
    using assms(2,3) by (simp_all add: findByPk_Some)
  have liv: "livros ?d' =
      map (\<lambda>r. if livro_id r = LivroId e then r\<lparr>quantidade := quantidade r + 1\<rparr> else r)
        (livros d)"
    using chave_unica [OF dl assms(3)] by (auto simp: run)
  have fl: "findByPk livro_id (livros ?d') (LivroId e) =
      Some (l\<lparr>quantidade := quantidade l + 1\<rparr>)"
    using assms(3) ids unfolding findByPk_def
    by (simp add: run find_save [of livro_id "\<lambda>r. r\<lparr>quantidade := quantidade l + 1\<rparr>"])
  have emp: "emprestimos ?d' = remove1 e (emprestimos d)"
    using destroy_remove1 [OF de assms(2)] by (simp add: run)
  have gone: "findByPk emprestimo_id (emprestimos ?d') k = None"
    by (auto simp: run findByPk_None)
  from gone have "devolver ?d' k = ((400, Erro IdEmprestimoInvalido), ?d')"
    by (rule devolver_sem_emprestimo)
  with liv fl emp gone ids show ?thesis by (simp add: run)
qed

theorem devolver_uma_vez_exemplo:
  "integro exemplo_emprestado \<and>
   findByPk emprestimo_id (emprestimos exemplo_emprestado) 1 =
     Some \<lparr>emprestimo_id = 1, UsuarioId = 1, LivroId = 1,
       dataVencimento = 1772955000000, renovacoes = 0\<rparr> \<and>
   map_option quantidade (findByPk livro_id (livros exemplo_emprestado) 1) = Some 0 \<and>
   fst (devolver exemplo_emprestado 1) = (200, Mensagem LivroDevolvido) \<and>
   map_option quantidade (findByPk livro_id (livros (snd (devolver exemplo_emprestado 1))) 1) =
     Some 1 \<and>
   emprestimos (snd (devolver exemplo_emprestado 1)) = [] \<and>
   devolver (snd (devolver exemplo_emprestado 1)) 1 =
     ((400, Erro IdEmprestimoInvalido), snd (devolver exemplo_emprestado 1))"
proof -
  have i: "integro exemplo_emprestado"
    by (simp add: integro_def exemplo_emprestado_eq)
  have e: "findByPk emprestimo_id (emprestimos exemplo_emprestado) 1 =
      Some \<lparr>emprestimo_id = 1, UsuarioId = 1, LivroId = 1,
        dataVencimento = 1772955000000, renovacoes = 0\<rparr>"
    by (simp add: exemplo_emprestado_eq findByPk_def)
  have l: "findByPk livro_id (livros exemplo_emprestado)
      (LivroId \<lparr>emprestimo_id = 1, UsuarioId = 1, LivroId = 1,
        dataVencimento = 1772955000000, renovacoes = 0\<rparr>) =
      Some \<lparr>livro_id = 1, titulo = ''A'', autor = ''B'', quantidade = 0, editora = ''E'',
        assunto = ''S'', faixaEtaria = Livre, imagem = None\<rparr>"
    by (simp add: exemplo_emprestado_eq findByPk_def)
  have q: "map_option quantidade (findByPk livro_id (livros exemplo_emprestado) 1) = Some 0"
    using l by simp
  have t: "emprestimos exemplo_emprestado =
      [\<lparr>emprestimo_id = 1, UsuarioId = 1, LivroId = 1,
        dataVencimento = 1772955000000, renovacoes = 0\<rparr>]"
    by (simp add: exemplo_emprestado_eq)
  note r = devolver_uma_vez [OF i e l]
  note r1 = r [THEN conjunct1]
  note r3 = r [THEN conjunct2, THEN conjunct2, THEN conjunct1]
  note r5 = r [THEN conjunct2, THEN conjunct2, THEN conjunct2, THEN conjunct2, THEN conjunct1]
  note r7 = r [THEN conjunct2, THEN conjunct2, THEN conjunct2, THEN conjunct2, THEN conjunct2,
    THEN conjunct2]
  have b: "map_option quantidade
      (findByPk livro_id (livros (snd (devolver exemplo_emprestado 1))) 1) = Some 1"
    using r3 by simp
  have c: "emprestimos (snd (devolver exemplo_emprestado 1)) = []"
    using r5 by (simp add: t)
  show ?thesis
    using i e q r1 b c r7 by blast
qed

section \<open>Returning a loan whose book is gone\<close>

text \<open>
  C6. For every return request whose loan exists while the loan's book does not resolve,
  \<open>devolver\<close> answers with an error (status 400, the text \<open>LivroNaoEncontrado\<close>) and the
  database is as before: the loan is still there and no quantity was incremented.
\<close>

theorem devolver_livro_ausente:
  assumes "findByPk emprestimo_id (emprestimos d) k = Some e"
      and "findByPk livro_id (livros d) (LivroId e) = None"
  shows "devolver d k = ((400, Erro LivroNaoEncontrado), d)"
  using assms
  by (simp add: devolver_def Emprestimo_findByPk_def Livro_findByPk_def carregar_def)

theorem devolver_livro_ausente_exemplo:
  "findByPk emprestimo_id (emprestimos exemplo_orfao) 1 =
     Some \<lparr>emprestimo_id = 1, UsuarioId = 1, LivroId = 1,
       dataVencimento = 1772955000000, renovacoes = 0\<rparr> \<and>
   findByPk livro_id (livros exemplo_orfao) 1 = None \<and>
   devolver exemplo_orfao 1 = ((400, Erro LivroNaoEncontrado), exemplo_orfao)"
proof -
  have e: "findByPk emprestimo_id (emprestimos exemplo_orfao) 1 =
      Some \<lparr>emprestimo_id = 1, UsuarioId = 1, LivroId = 1,
        dataVencimento = 1772955000000, renovacoes = 0\<rparr>"
    by (simp add: exemplo_orfao_eq findByPk_def)
  have l: "findByPk livro_id (livros exemplo_orfao)
      (LivroId \<lparr>emprestimo_id = 1, UsuarioId = 1, LivroId = 1,
        dataVencimento = 1772955000000, renovacoes = 0\<rparr>) = None"
    by (simp add: exemplo_orfao_eq findByPk_def)
  show ?thesis
    using e l devolver_livro_ausente [OF e l] by simp
qed

section \<open>Borrowing a book that is available\<close>




section \<open>Updating a book\<close>

text \<open>
  C8, as the claim states it, fails in both halves. The route takes multipart forms, whose
  fields arrive as strings: the quantity 0 submitted through a form is the string "0",
  which is not falsy, and the update answers 200 and stores 0 over the prior quantity 1.
  And a submitted value that is not falsy does not replace the stored one when the store
  refuses it: an update whose title is a list answers 500 and changes nothing.
\<close>

theorem atualizarLivro_campos_contraexemplo:
  "map_option quantidade (findByPk livro_id (livros exemplo_db) 1) = Some 1 \<and>
   req_quantidade exemplo_multipart = JStr ''0'' \<and>
   fst (fst (atualizarLivro exemplo_amb exemplo_db 1 exemplo_multipart None)) = 200 \<and>
   map_option quantidade
     (findByPk livro_id (livros (snd (atualizarLivro exemplo_amb exemplo_db 1
        exemplo_multipart None))) 1) = Some 0 \<and>
   req_titulo exemplo_lista = JArr [JStr ''Z''] \<and>
   truthy (req_titulo exemplo_lista) \<and>
   atualizarLivro exemplo_amb exemplo_db 1 exemplo_lista None =
     ((500, Erro ErroDoBanco), exemplo_db)"
  by (simp add: exemplo_db_eq exemplo_multipart_def exemplo_lista_def exemplo_vazio_def
      orm_defs rota_defs exemplo_amb_defs Let_def)

text \<open>
  C8, amended. For every update request on an existing book \<open>l\<close>: a submitted value counts
  for a field when it is not falsy (falsy are an absent field, \<open>null\<close>, \<open>false\<close>, the
  number 0 and the empty string; the string "0" of a multipart form is not) and differs
  from the value the field holds.

  \<^item> When the store accepts every submitted value that counts, \<open>atualizarLivro\<close> answers
    200, and in the book as it is stored afterwards each of \<open>titulo\<close>, \<open>autor\<close>,
    \<open>quantidade\<close>, \<open>editora\<close>, \<open>assunto\<close> and \<open>faixaEtaria\<close> has its prior value when the
    submitted value is falsy (or is that prior value), and otherwise the submitted value as
    the store converts it; \<open>imagem\<close> is the name of the uploaded file when there is one, and
    as before otherwise. Every other book is as before.
  \<^item> When the store refuses one of the submitted values that count, \<open>atualizarLivro\<close>
    answers 500 and nothing is changed.
\<close>

theorem atualizarLivro_campos:
  assumes "findByPk livro_id (livros d) k = Some l"
  shows "(livro_aceito amb l b \<longrightarrow>
       (\<exists>l'. fst (fst (atualizarLivro amb d k b f)) = 200 \<and>
          findByPk livro_id (livros (snd (atualizarLivro amb d k b f))) k = Some l' \<and>
          titulo l' =
            (if falsy (req_titulo b) \<or> req_titulo b = JStr (titulo l) then titulo l
             else the (texto_de amb (req_titulo b))) \<and>
          autor l' =
            (if falsy (req_autor b) \<or> req_autor b = JStr (autor l) then autor l
             else the (texto_de amb (req_autor b))) \<and>
          quantidade l' =
            (if falsy (req_quantidade b) \<or> req_quantidade b = JNum (of_int (quantidade l))
             then quantidade l else the (inteiro_de amb (req_quantidade b))) \<and>
          editora l' =
            (if falsy (req_editora b) \<or> req_editora b = JStr (editora l) then editora l
             else the (texto_de amb (req_editora b))) \<and>
          assunto l' =
            (if falsy (req_assunto b) \<or> req_assunto b = JStr (assunto l) then assunto l
             else the (texto_de amb (req_assunto b))) \<and>
          faixaEtaria l' =
            (if falsy (req_faixaEtaria b) \<or>
                req_faixaEtaria b = JStr (nome_faixa (faixaEtaria l))
             then faixaEtaria l else the (faixa_de amb (req_faixaEtaria b))) \<and>
          imagem l' = (case f of None \<Rightarrow> imagem l | Some n \<Rightarrow> Some n) \<and>
          livro_id l' = k) \<and>
       (\<forall>j. j \<noteq> k \<longrightarrow>
          findByPk livro_id (livros (snd (atualizarLivro amb d k b f))) j =
            findByPk livro_id (livros d) j)) \<and>
     (\<not> livro_aceito amb l b \<longrightarrow>
        atualizarLivro amb d k b f = ((500, Erro ErroDoBanco), d))"
proof (intro conjI impI)
  assume aceito: "livro_aceito amb l b"
  from atualizarLivro_aceito [OF assms aceito, of f] obtain g m where
    g: "\<And>x. livro_id (g x) = livro_id x"
    and gl: "g l = livro_atualizado amb l b f"
    and r: "atualizarLivro amb d k b f =
      ((200, JLivro m),
       d\<lparr>livros := map (\<lambda>r. if livro_id r = k then g r else r) (livros d)\<rparr>)"
    by blast
  have kl: "livro_id l = k" using assms by (simp add: findByPk_Some)
  have achado: "findByPk livro_id (livros (snd (atualizarLivro amb d k b f))) k =
      Some (livro_atualizado amb l b f)"
    using assms kl unfolding findByPk_def
    by (simp add: r find_save [of livro_id g, OF g] gl)
  have campos:
    "titulo (livro_atualizado amb l b f) =
       (if falsy (req_titulo b) \<or> req_titulo b = JStr (titulo l) then titulo l
        else the (texto_de amb (req_titulo b)))"
    "autor (livro_atualizado amb l b f) =
       (if falsy (req_autor b) \<or> req_autor b = JStr (autor l) then autor l
        else the (texto_de amb (req_autor b)))"
    "quantidade (livro_atualizado amb l b f) =
       (if falsy (req_quantidade b) \<or> req_quantidade b = JNum (of_int (quantidade l))
        then quantidade l else the (inteiro_de amb (req_quantidade b)))"
    "editora (livro_atualizado amb l b f) =
       (if falsy (req_editora b) \<or> req_editora b = JStr (editora l) then editora l
        else the (texto_de amb (req_editora b)))"
    "assunto (livro_atualizado amb l b f) =
       (if falsy (req_assunto b) \<or> req_assunto b = JStr (assunto l) then assunto l
        else the (texto_de amb (req_assunto b)))"
    "faixaEtaria (livro_atualizado amb l b f) =
       (if falsy (req_faixaEtaria b) \<or>
           req_faixaEtaria b = JStr (nome_faixa (faixaEtaria l))
        then faixaEtaria l else the (faixa_de amb (req_faixaEtaria b)))"
    "imagem (livro_atualizado amb l b f) = (case f of None \<Rightarrow> imagem l | Some n \<Rightarrow> Some n)"
    "livro_id (livro_atualizado amb l b f) = k"
    by (simp_all add: livro_atualizado_def muda_def kl)
  show "\<exists>l'. fst (fst (atualizarLivro amb d k b f)) = 200 \<and>
      findByPk livro_id (livros (snd (atualizarLivro amb d k b f))) k = Some l' \<and>
      titulo l' =
        (if falsy (req_titulo b) \<or> req_titulo b = JStr (titulo l) then titulo l
         else the (texto_de amb (req_titulo b))) \<and>
      autor l' =
        (if falsy (req_autor b) \<or> req_autor b = JStr (autor l) then autor l
         else the (texto_de amb (req_autor b))) \<and>
      quantidade l' =
        (if falsy (req_quantidade b) \<or> req_quantidade b = JNum (of_int (quantidade l))
         then quantidade l else the (inteiro_de amb (req_quantidade b))) \<and>
      editora l' =
        (if falsy (req_editora b) \<or> req_editora b = JStr (editora l) then editora l
         else the (texto_de amb (req_editora b))) \<and>
      assunto l' =
        (if falsy (req_assunto b) \<or> req_assunto b = JStr (assunto l) then assunto l
         else the (texto_de amb (req_assunto b))) \<and>
      faixaEtaria l' =
        (if falsy (req_faixaEtaria b) \<or>
            req_faixaEtaria b = JStr (nome_faixa (faixaEtaria l))
         then faixaEtaria l else the (faixa_de amb (req_faixaEtaria b))) \<and>
      imagem l' = (case f of None \<Rightarrow> imagem l | Some n \<Rightarrow> Some n) \<and>
      livro_id l' = k"
    apply (rule exI [of _ "livro_atualizado amb l b f"])
    using achado campos by (simp add: r)
next
  from atualizarLivro_forma [where amb = amb and d = d and k = k and b = b and f = f]
  obtain g where
    g: "\<And>x. livro_id (g x) = livro_id x"
    and r: "snd (atualizarLivro amb d k b f) =
      d\<lparr>livros := map (\<lambda>r. if livro_id r = k then g r else r) (livros d)\<rparr>"
    by blast
  show "\<forall>j. j \<noteq> k \<longrightarrow>
      findByPk livro_id (livros (snd (atualizarLivro amb d k b f))) j =
        findByPk livro_id (livros d) j"
  proof (intro allI impI)
    fix j :: nat assume "j \<noteq> k"
    then show "findByPk livro_id (livros (snd (atualizarLivro amb d k b f))) j =
        findByPk livro_id (livros d) j"
      unfolding findByPk_def by (simp add: r find_save_outro [of livro_id g, OF g])
  qed
next
  assume "\<not> livro_aceito amb l b"
  from atualizarLivro_recusado [OF assms this, of f]
  show "atualizarLivro amb d k b f = ((500, Erro ErroDoBanco), d)" .
qed

theorem atualizarLivro_campos_exemplo:
  "findByPk livro_id (livros exemplo_db) 1 =
     Some \<lparr>livro_id = 1, titulo = ''A'', autor = ''B'', quantidade = 1, editora = ''E'',
       assunto = ''S'', faixaEtaria = Livre, imagem = None\<rparr> \<and>
   exemplo_corpo =
     \<lparr>req_titulo = JStr [], req_autor = JStr ''C'', req_quantidade = JNum 0,
      req_editora = JUndefined, req_assunto = JNull, req_faixaEtaria = JStr ''Adulto''\<rparr> \<and>
   fst (fst (atualizarLivro exemplo_amb exemplo_db 1 exemplo_corpo (Some ''c.png''))) = 200 \<and>
   findByPk livro_id
     (livros (snd (atualizarLivro exemplo_amb exemplo_db 1 exemplo_corpo (Some ''c.png'')))) 1 =
     Some \<lparr>livro_id = 1, titulo = ''A'', autor = ''C'', quantidade = 1, editora = ''E'',
       assunto = ''S'', faixaEtaria = Adulto, imagem = Some ''c.png''\<rparr> \<and>
   fst (fst (atualizarLivro exemplo_amb exemplo_db 1 exemplo_multipart None)) = 200 \<and>
   findByPk livro_id
     (livros (snd (atualizarLivro exemplo_amb exemplo_db 1 exemplo_multipart None))) 1 =
     Some \<lparr>livro_id = 1, titulo = ''A'', autor = ''B'', quantidade = 0, editora = ''E'',
       assunto = ''S'', faixaEtaria = Livre, imagem = None\<rparr> \<and>
   findByPk livro_id
     (livros (snd (atualizarLivro exemplo_amb exemplo_db 1 exemplo_reposicao None))) 1 =
     Some \<lparr>livro_id = 1, titulo = ''A'', autor = ''B'', quantidade = 5, editora = ''E'',
       assunto = ''S'', faixaEtaria = Livre, imagem = None\<rparr> \<and>
   atualizarLivro exemplo_amb exemplo_db 1 exemplo_lista None =
     ((500, Erro ErroDoBanco), exemplo_db)"
proof -
  let ?l = "\<lparr>livro_id = 1, titulo = ''A'', autor = ''B'', quantidade = 1, editora = ''E'',
    assunto = ''S'', faixaEtaria = Livre, imagem = None\<rparr>"
  have l: "findByPk livro_id (livros exemplo_db) 1 = Some ?l"
    by (simp add: exemplo_db_eq findByPk_def)
  have c: "exemplo_corpo =
     \<lparr>req_titulo = JStr [], req_autor = JStr ''C'', req_quantidade = JNum 0,
      req_editora = JUndefined, req_assunto = JNull, req_faixaEtaria = JStr ''Adulto''\<rparr>"
    by (simp add: exemplo_corpo_def)
  have a1: "livro_aceito exemplo_amb ?l exemplo_corpo"
    by (simp add: livro_aceito_def muda_def falsy_def exemplo_corpo_def exemplo_amb_defs)
  have a2: "livro_aceito exemplo_amb ?l exemplo_multipart"
    by (simp add: livro_aceito_def muda_def falsy_def exemplo_multipart_def exemplo_vazio_def
        exemplo_amb_defs)
  have a3: "livro_aceito exemplo_amb ?l exemplo_reposicao"
    by (simp add: livro_aceito_def muda_def falsy_def exemplo_reposicao_def exemplo_vazio_def
        exemplo_amb_defs)
  have a4: "\<not> livro_aceito exemplo_amb ?l exemplo_lista"
    by (simp add: livro_aceito_def muda_def falsy_def exemplo_lista_def exemplo_vazio_def
        exemplo_amb_defs)
  note t = atualizarLivro_campos [OF l, where amb = exemplo_amb]
  from t [where b = exemplo_corpo and f = "Some ''c.png''", THEN conjunct1, THEN mp, OF a1,
      THEN conjunct1]
  obtain l1 where l1:
    "fst (fst (atualizarLivro exemplo_amb exemplo_db 1 exemplo_corpo (Some ''c.png''))) = 200"
    "findByPk livro_id
       (livros (snd (atualizarLivro exemplo_amb exemplo_db 1 exemplo_corpo (Some ''c.png''))))
       1 = Some l1"
    "titulo l1 = ''A''" "autor l1 = ''C''" "quantidade l1 = 1" "editora l1 = ''E''"
    "assunto l1 = ''S''" "faixaEtaria l1 = Adulto" "imagem l1 = Some ''c.png''"
    "livro_id l1 = 1"
    by (auto simp: falsy_def exemplo_corpo_def exemplo_amb_defs)
  have e1: "l1 = \<lparr>livro_id = 1, titulo = ''A'', autor = ''C'', quantidade = 1, editora = ''E'',
      assunto = ''S'', faixaEtaria = Adulto, imagem = Some ''c.png''\<rparr>"
    using l1(3-) by (cases l1) simp
  from t [where b = exemplo_multipart and f = None, THEN conjunct1, THEN mp, OF a2,
      THEN conjunct1]
  obtain l2 where l2:
    "fst (fst (atualizarLivro exemplo_amb exemplo_db 1 exemplo_multipart None)) = 200"
    "findByPk livro_id
       (livros (snd (atualizarLivro exemplo_amb exemplo_db 1 exemplo_multipart None))) 1 =
       Some l2"
    "titulo l2 = ''A''" "autor l2 = ''B''" "quantidade l2 = 0" "editora l2 = ''E''"
    "assunto l2 = ''S''" "faixaEtaria l2 = Livre" "imagem l2 = None" "livro_id l2 = 1"
    by (auto simp: falsy_def exemplo_multipart_def exemplo_vazio_def exemplo_amb_defs)
  have e2: "l2 = \<lparr>livro_id = 1, titulo = ''A'', autor = ''B'', quantidade = 0, editora = ''E'',
      assunto = ''S'', faixaEtaria = Livre, imagem = None\<rparr>"
    using l2(3-) by (cases l2) simp
  from t [where b = exemplo_reposicao and f = None, THEN conjunct1, THEN mp, OF a3,
      THEN conjunct1]
  obtain l3 where l3:
    "findByPk livro_id
       (livros (snd (atualizarLivro exemplo_amb exemplo_db 1 exemplo_reposicao None))) 1 =
       Some l3"
    "titulo l3 = ''A''" "autor l3 = ''B''" "quantidade l3 = 5" "editora l3 = ''E''"
    "assunto l3 = ''S''" "faixaEtaria l3 = Livre" "imagem l3 = None" "livro_id l3 = 1"
    by (auto simp: falsy_def exemplo_reposicao_def exemplo_vazio_def exemplo_amb_defs)
  have e3: "l3 = \<lparr>livro_id = 1, titulo = ''A'', autor = ''B'', quantidade = 5, editora = ''E'',
      assunto = ''S'', faixaEtaria = Livre, imagem = None\<rparr>"
    using l3(2-) by (cases l3) simp
  from t [where b = exemplo_lista and f = None, THEN conjunct2, THEN mp, OF a4]
  have r4: "atualizarLivro exemplo_amb exemplo_db 1 exemplo_lista None =
      ((500, Erro ErroDoBanco), exemplo_db)" .
  show ?thesis
    using l c l1(1,2) l2(1,2) l3(1) r4 unfolding e1 e2 e3 by blast
qed

section \<open>Two borrow requests for the last copy\<close>

text \<open>
  C9, as the claim states it, fails. The handler reads the book, tests the quantity it read
  and only then writes, with an \<open>await\<close> between the steps and no transaction or lock
  around them. When the handlers of two requests for the one available copy of book 1 have
  both read before either writes, each finds quantity 1: both answer 201, two loans of the
  book exist and the stored quantity is 0.
\<close>

theorem alugar_intercalado_contraexemplo:
  "map_option quantidade (findByPk livro_id (livros exemplo_db) 1) = Some 1 \<and>
   fst (fst exemplo_primeiro) = 201 \<and>
   fst (fst exemplo_segundo) = 201 \<and>
   map UsuarioId (emprestimos (snd exemplo_segundo)) = [1, 2] \<and>
   map LivroId (emprestimos (snd exemplo_segundo)) = [1, 1] \<and>
   map_option quantidade (findByPk livro_id (livros (snd exemplo_segundo)) 1) = Some 0"
  by (simp add: exemplo_segundo_def exemplo_primeiro_def exemplo_db_eq exemplo_agora_def
      orm_defs rota_defs Let_def)

text \<open>
  C9, amended. For every book with available quantity 1, two borrow requests against it
  that are handled one after the other, the second handler starting when the first has
  finished, do not both succeed: the first answers 201 and the second is refused with the
  handler's one error (status 400, \<open>AluguelRecusado\<close>), leaving the database as the first
  left it.
\<close>

theorem alugar_em_sequencia:
  assumes "findByPk usuario_id (usuarios d) u1 = Some x1"
      and "findByPk usuario_id (usuarios d) u2 = Some x2"
      and "findByPk livro_id (livros d) l = Some lv"
      and "quantidade lv = 1"
  shows "fst (fst (alugar amb d t1 u1 l)) = 201 \<and>
     alugar amb (snd (alugar amb d t1 u1 l)) t2 u2 l =
       ((400, Erro AluguelRecusado), snd (alugar amb d t1 u1 l))"
proof -
  have q: "0 < quantidade lv" using assms(4) by simp
  note r = alugar_ok [OF assms(1,3) q, where amb = amb and agora = t1]
  have k: "livro_id lv = l" using assms(3) by (simp add: findByPk_Some)
  have "findByPk livro_id (livros (snd (alugar amb d t1 u1 l))) l =
      Some (lv\<lparr>quantidade := quantidade lv - 1\<rparr>)"
    using assms(3) k unfolding findByPk_def
    by (simp add: r find_save [of livro_id "\<lambda>r. r\<lparr>quantidade := quantidade lv - 1\<rparr>"])
  then have "\<exists>lv'. findByPk livro_id (livros (snd (alugar amb d t1 u1 l))) l = Some lv' \<and>
      quantidade lv' \<le> 0"
    using assms(4) by simp
  then have "alugar amb (snd (alugar amb d t1 u1 l)) t2 u2 l =
      ((400, Erro AluguelRecusado), snd (alugar amb d t1 u1 l))"
    by (intro alugar_nada) blast
  then show ?thesis by (simp add: r)
qed

theorem alugar_em_sequencia_exemplo:
  "findByPk usuario_id (usuarios exemplo_db) 1 =
     Some \<lparr>usuario_id = 1, nome = ''Ana'', email = ''ana@x'', senha = ''s1''\<rparr> \<and>
   findByPk usuario_id (usuarios exemplo_db) 2 =
     Some \<lparr>usuario_id = 2, nome = ''Rui'', email = ''rui@x'', senha = ''s2''\<rparr> \<and>
   map_option quantidade (findByPk livro_id (livros exemplo_db) 1) = Some 1 \<and>
   fst (fst (alugar exemplo_amb exemplo_db exemplo_agora 1 1)) = 201 \<and>
   alugar exemplo_amb (snd (alugar exemplo_amb exemplo_db exemplo_agora 1 1)) exemplo_agora 2 1 =
     ((400, Erro AluguelRecusado), snd (alugar exemplo_amb exemplo_db exemplo_agora 1 1))"
proof -
  have u1: "findByPk usuario_id (usuarios exemplo_db) 1 =
      Some \<lparr>usuario_id = 1, nome = ''Ana'', email = ''ana@x'', senha = ''s1''\<rparr>"
    by (simp add: exemplo_db_eq findByPk_def)
  have u2: "findByPk usuario_id (usuarios exemplo_db) 2 =
      Some \<lparr>usuario_id = 2, nome = ''Rui'', email = ''rui@x'', senha = ''s2''\<rparr>"
    by (simp add: exemplo_db_eq findByPk_def)
  have l: "findByPk livro_id (livros exemplo_db) 1 =
      Some \<lparr>livro_id = 1, titulo = ''A'', autor = ''B'', quantidade = 1, editora = ''E'',
        assunto = ''S'', faixaEtaria = Livre, imagem = None\<rparr>"
    by (simp add: exemplo_db_eq findByPk_def)
  have q: "quantidade \<lparr>livro_id = 1, titulo = ''A'', autor = ''B'', quantidade = 1,
      editora = ''E'', assunto = ''S'', faixaEtaria = Livre, imagem = None\<rparr> = 1"
    by simp
  have m: "map_option quantidade (findByPk livro_id (livros exemplo_db) 1) = Some 1"
    using l by simp
  show ?thesis
    using u1 u2 m alugar_em_sequencia [OF u1 u2 l q, where amb = exemplo_amb and ?t1.0 = exemplo_agora and ?t2.0 = exemplo_agora]
    by blast
qed

section \<open>Login\<close>

text \<open>
  C10, as the claim states it, fails in its "only if". The handler hands the two fields of
  the body to the query as they are, and a list becomes an \<open>IN\<close> list: a login with the
  email of a stored user and, as \<open>senha\<close>, a list that has that user's \<open>senha\<close> among its
  elements answers 200 with that user's record, though the \<open>senha\<close> of no stored user
  equals the submitted value. (A login without \<open>senha\<close> answers 400, not 401.)
\<close>

theorem login_credenciais_contraexemplo:
  "map senha (usuarios exemplo_db) = [''s1'', ''s2''] \<and>
   fst (login exemplo_amb exemplo_db (JStr ''ana@x'') (JArr [JStr ''x'', JStr ''s1''])) =
     (200, JUsuario \<lparr>usuario_id = 1, nome = ''Ana'', email = ''ana@x'', senha = ''s1''\<rparr>) \<and>
   JArr [JStr ''x'', JStr ''s1''] \<noteq> JStr ''s1'' \<and>
   JArr [JStr ''x'', JStr ''s1''] \<noteq> JStr ''s2'' \<and>
   fst (login exemplo_amb exemplo_db (JStr ''ana@x'') JUndefined) = (400, Erro ErroDoBanco)"
  by (simp add: exemplo_db_eq login_def exemplo_amb_def)

text \<open>
  C10, amended. \<open>login\<close> never changes the database, and it answers 200, 400 or 401.

  \<^item> When the email or the \<open>senha\<close> is absent from the body, it answers 400.
  \<^item> When the email and the \<open>senha\<close> are strings, it answers 200 if and only if some stored
    user's email and \<open>senha\<close> both equal the submitted ones, as the store compares strings;
    otherwise it answers 401.
  \<^item> More generally, when each of the two is a string, a list of strings or \<open>null\<close>, it
    answers 200 if and only if some stored user's email equals one of the strings that the
    submitted email offers and that user's \<open>senha\<close> equals one of the strings that the
    submitted \<open>senha\<close> offers; the body of the 200 response is then the whole stored record
    of such a user, \<open>senha\<close> included; otherwise it answers 401.
  \<^item> Whatever the two values are, the body of a 200 response is the whole stored record
    of a stored user.
\<close>

theorem login_credenciais:
  "snd (login amb d e s) = d \<and>
   fst (fst (login amb d e s)) \<in> {200, 400, 401} \<and>
   (e = JUndefined \<or> s = JUndefined \<longrightarrow> fst (login amb d e s) = (400, Erro ErroDoBanco)) \<and>
   (\<forall>x y. e = JStr x \<and> s = JStr y \<longrightarrow>
      (fst (fst (login amb d e s)) = 200 \<longleftrightarrow>
         (\<exists>u \<in> set (usuarios d). igual amb (email u) x \<and> igual amb (senha u) y)) \<and>
      (fst (fst (login amb d e s)) \<noteq> 200 \<longrightarrow>
         fst (login amb d e s) = (401, Erro CredenciaisInvalidas))) \<and>
   (\<forall>xs ys. textos e = Some xs \<and> textos s = Some ys \<longrightarrow>
      (fst (fst (login amb d e s)) = 200 \<longleftrightarrow>
         (\<exists>u \<in> set (usuarios d).
            (\<exists>x \<in> set xs. igual amb (email u) x) \<and> (\<exists>y \<in> set ys. igual amb (senha u) y))) \<and>
      (fst (fst (login amb d e s)) = 200 \<longrightarrow>
         (\<exists>u \<in> set (usuarios d).
            (\<exists>x \<in> set xs. igual amb (email u) x) \<and> (\<exists>y \<in> set ys. igual amb (senha u) y) \<and>
            snd (fst (login amb d e s)) = JUsuario u)) \<and>
      (fst (fst (login amb d e s)) \<noteq> 200 \<longrightarrow>
         fst (login amb d e s) = (401, Erro CredenciaisInvalidas))) \<and>
   (fst (fst (login amb d e s)) = 200 \<longrightarrow>
      (\<exists>u \<in> set (usuarios d). snd (fst (login amb d e s)) = JUsuario u))"
proof (intro conjI)
  show "snd (login amb d e s) = d"
    by (rule login_forma)
  have geral: "fst (fst (login amb d e s)) \<in> {200, 400, 401} \<and>
      (fst (fst (login amb d e s)) = 200 \<longrightarrow>
         (\<exists>u \<in> set (usuarios d). snd (fst (login amb d e s)) = JUsuario u))"
  proof (cases "filtro amb e = None \<or> filtro amb s = None")
    case True
    from login_sem_filtro [OF this] show ?thesis by simp
  next
    case False
    then obtain p q where pq: "filtro amb e = Some p" "filtro amb s = Some q"
      by auto
    show ?thesis
    proof (cases "fst (fst (login amb d e s)) = 200")
      case True
      with login_achado(2) [OF pq, of d] show ?thesis by auto
    next
      case False
      with login_achado(3) [OF pq, of d] show ?thesis by simp
    qed
  qed
  from geral show "fst (fst (login amb d e s)) \<in> {200, 400, 401}"
    by (rule conjunct1)
  from geral show "fst (fst (login amb d e s)) = 200 \<longrightarrow>
      (\<exists>u \<in> set (usuarios d). snd (fst (login amb d e s)) = JUsuario u)"
    by (rule conjunct2)
  show "e = JUndefined \<or> s = JUndefined \<longrightarrow> fst (login amb d e s) = (400, Erro ErroDoBanco)"
  proof
    assume "e = JUndefined \<or> s = JUndefined"
    then have "filtro amb e = None \<or> filtro amb s = None" by auto
    from login_sem_filtro [OF this] show "fst (login amb d e s) = (400, Erro ErroDoBanco)"
      by simp
  qed
  show "\<forall>x y. e = JStr x \<and> s = JStr y \<longrightarrow>
      (fst (fst (login amb d e s)) = 200 \<longleftrightarrow>
         (\<exists>u \<in> set (usuarios d). igual amb (email u) x \<and> igual amb (senha u) y)) \<and>
      (fst (fst (login amb d e s)) \<noteq> 200 \<longrightarrow>
         fst (login amb d e s) = (401, Erro CredenciaisInvalidas))"
  proof (intro allI impI, elim conjE)
    fix x y assume e: "e = JStr x" and s: "s = JStr y"
    have pq: "filtro amb e = Some (\<lambda>c. igual amb c x)" "filtro amb s = Some (\<lambda>c. igual amb c y)"
      by (simp_all add: e s)
    from login_achado(1) [OF pq, of d] login_achado(3) [OF pq, of d]
    show "(fst (fst (login amb d e s)) = 200 \<longleftrightarrow>
         (\<exists>u \<in> set (usuarios d). igual amb (email u) x \<and> igual amb (senha u) y)) \<and>
      (fst (fst (login amb d e s)) \<noteq> 200 \<longrightarrow>
         fst (login amb d e s) = (401, Erro CredenciaisInvalidas))"
      by blast
  qed
  show "\<forall>xs ys. textos e = Some xs \<and> textos s = Some ys \<longrightarrow>
      (fst (fst (login amb d e s)) = 200 \<longleftrightarrow>
         (\<exists>u \<in> set (usuarios d).
            (\<exists>x \<in> set xs. igual amb (email u) x) \<and> (\<exists>y \<in> set ys. igual amb (senha u) y))) \<and>
      (fst (fst (login amb d e s)) = 200 \<longrightarrow>
         (\<exists>u \<in> set (usuarios d).
            (\<exists>x \<in> set xs. igual amb (email u) x) \<and> (\<exists>y \<in> set ys. igual amb (senha u) y) \<and>
            snd (fst (login amb d e s)) = JUsuario u)) \<and>
      (fst (fst (login amb d e s)) \<noteq> 200 \<longrightarrow>
         fst (login amb d e s) = (401, Erro CredenciaisInvalidas))"
  proof (intro allI impI, elim conjE)
    fix xs ys assume e: "textos e = Some xs" and s: "textos s = Some ys"
    from filtro_textos [OF e, of amb] obtain p where
      p: "filtro amb e = Some p" "\<And>c. p c \<longleftrightarrow> (\<exists>x \<in> set xs. igual amb c x)"
      by blast
    from filtro_textos [OF s, of amb] obtain q where
      q: "filtro amb s = Some q" "\<And>c. q c \<longleftrightarrow> (\<exists>y \<in> set ys. igual amb c y)"
      by blast
    note a = login_achado [OF p(1) q(1), of d, unfolded p(2) q(2)]
    from a(1) a(2) a(3)
    show "(fst (fst (login amb d e s)) = 200 \<longleftrightarrow>
         (\<exists>u \<in> set (usuarios d).
            (\<exists>x \<in> set xs. igual amb (email u) x) \<and> (\<exists>y \<in> set ys. igual amb (senha u) y))) \<and>
      (fst (fst (login amb d e s)) = 200 \<longrightarrow>
         (\<exists>u \<in> set (usuarios d).
            (\<exists>x \<in> set xs. igual amb (email u) x) \<and> (\<exists>y \<in> set ys. igual amb (senha u) y) \<and>
            snd (fst (login amb d e s)) = JUsuario u)) \<and>
      (fst (fst (login amb d e s)) \<noteq> 200 \<longrightarrow>
         fst (login amb d e s) = (401, Erro CredenciaisInvalidas))"
      by blast
  qed
qed

theorem login_credenciais_exemplo:
  "fst (login exemplo_amb exemplo_db (JStr ''ana@x'') (JStr ''s1'')) =
     (200, JUsuario \<lparr>usuario_id = 1, nome = ''Ana'', email = ''ana@x'', senha = ''s1''\<rparr>) \<and>
   fst (login exemplo_amb exemplo_db (JStr ''ana@x'') (JStr ''s2'')) =
     (401, Erro CredenciaisInvalidas) \<and>
   fst (login exemplo_amb exemplo_db (JStr ''ana@x'') JUndefined) = (400, Erro ErroDoBanco) \<and>
   fst (login exemplo_amb exemplo_db (JStr ''ana@x'') JNull) =
     (401, Erro CredenciaisInvalidas) \<and>
   fst (login exemplo_amb exemplo_db (JStr ''rui@x'') (JArr [JStr ''x'', JStr ''s2''])) =
     (200, JUsuario \<lparr>usuario_id = 2, nome = ''Rui'', email = ''rui@x'', senha = ''s2''\<rparr>) \<and>
   snd (login exemplo_amb exemplo_db (JStr ''ana@x'') (JStr ''s1'')) = exemplo_db"
proof -
  note t = login_credenciais [where amb = exemplo_amb and d = exemplo_db]
  have us: "set (usuarios exemplo_db) =
      {\<lparr>usuario_id = 1, nome = ''Ana'', email = ''ana@x'', senha = ''s1''\<rparr>,
       \<lparr>usuario_id = 2, nome = ''Rui'', email = ''rui@x'', senha = ''s2''\<rparr>}"
    by (simp add: exemplo_db_eq)
  have ig: "igual exemplo_amb = (\<lambda>c s. c = s)"
    by (simp add: exemplo_amb_def)
  note t1 = t [where e = "JStr ''ana@x''" and s = "JStr ''s1''"]
  from t1 have g1: "snd (login exemplo_amb exemplo_db (JStr ''ana@x'') (JStr ''s1'')) =
      exemplo_db"
    by (rule conjunct1)
  have tx1: "textos (JStr ''ana@x'') = Some [''ana@x''] \<and> textos (JStr ''s1'') = Some [''s1'']"
    by (simp add: textos_def)
  note c1 = t1 [THEN conjunct2, THEN conjunct2, THEN conjunct2, THEN conjunct2,
      THEN conjunct1, THEN spec, THEN spec, THEN mp, OF tx1]
  have ex1: "\<exists>u \<in> set (usuarios exemplo_db).
      (\<exists>x \<in> set [''ana@x'']. igual exemplo_amb (email u) x) \<and>
      (\<exists>y \<in> set [''s1'']. igual exemplo_amb (senha u) y)"
    by (simp add: us ig)
  from c1 ex1 obtain u where u: "u \<in> set (usuarios exemplo_db)"
    "\<exists>x \<in> set [''ana@x'']. igual exemplo_amb (email u) x"
    "fst (fst (login exemplo_amb exemplo_db (JStr ''ana@x'') (JStr ''s1''))) = 200"
    "snd (fst (login exemplo_amb exemplo_db (JStr ''ana@x'') (JStr ''s1''))) = JUsuario u"
    by blast
  from u(1,2) have "u = \<lparr>usuario_id = 1, nome = ''Ana'', email = ''ana@x'', senha = ''s1''\<rparr>"
    by (auto simp: us ig)
  with u(3,4) have r1: "fst (login exemplo_amb exemplo_db (JStr ''ana@x'') (JStr ''s1'')) =
      (200, JUsuario \<lparr>usuario_id = 1, nome = ''Ana'', email = ''ana@x'', senha = ''s1''\<rparr>)"
    by (simp add: prod_eq_iff)
  note t2 = t [where e = "JStr ''ana@x''" and s = "JStr ''s2''"]
  note c2 = t2 [THEN conjunct2, THEN conjunct2, THEN conjunct2, THEN conjunct1,
      THEN spec, THEN spec, THEN mp, OF conjI [OF refl refl]]
  have no2: "\<not> (\<exists>u \<in> set (usuarios exemplo_db).
      igual exemplo_amb (email u) ''ana@x'' \<and> igual exemplo_amb (senha u) ''s2'')"
    by (simp add: us ig)
  from c2 no2 have r2: "fst (login exemplo_amb exemplo_db (JStr ''ana@x'') (JStr ''s2'')) =
      (401, Erro CredenciaisInvalidas)"
    by blast
  note t3 = t [where e = "JStr ''ana@x''" and s = JUndefined]
  from t3 [THEN conjunct2, THEN conjunct2, THEN conjunct1]
  have r3: "fst (login exemplo_amb exemplo_db (JStr ''ana@x'') JUndefined) =
      (400, Erro ErroDoBanco)"
    by blast
  note t4 = t [where e = "JStr ''ana@x''" and s = JNull]
  have tx4: "textos (JStr ''ana@x'') = Some [''ana@x''] \<and> textos JNull = Some []"
    by (simp add: textos_def)
  note c4 = t4 [THEN conjunct2, THEN conjunct2, THEN conjunct2, THEN conjunct2,
      THEN conjunct1, THEN spec, THEN spec, THEN mp, OF tx4]
  from c4 have r4: "fst (login exemplo_amb exemplo_db (JStr ''ana@x'') JNull) =
      (401, Erro CredenciaisInvalidas)"
    by simp
  note t5 = t [where e = "JStr ''rui@x''" and s = "JArr [JStr ''x'', JStr ''s2'']"]
  have tx5: "textos (JStr ''rui@x'') = Some [''rui@x''] \<and>
      textos (JArr [JStr ''x'', JStr ''s2'']) = Some [''x'', ''s2'']"
    by (simp add: textos_def)
  note c5 = t5 [THEN conjunct2, THEN conjunct2, THEN conjunct2, THEN conjunct2,
      THEN conjunct1, THEN spec, THEN spec, THEN mp, OF tx5]
  have ex5: "\<exists>u \<in> set (usuarios exemplo_db).
      (\<exists>x \<in> set [''rui@x'']. igual exemplo_amb (email u) x) \<and>
      (\<exists>y \<in> set [''x'', ''s2'']. igual exemplo_amb (senha u) y)"
    by (simp add: us ig)
  from c5 ex5 obtain v where v: "v \<in> set (usuarios exemplo_db)"
    "\<exists>x \<in> set [''rui@x'']. igual exemplo_amb (email v) x"
    "fst (fst (login exemplo_amb exemplo_db (JStr ''rui@x'')
       (JArr [JStr ''x'', JStr ''s2'']))) = 200"
    "snd (fst (login exemplo_amb exemplo_db (JStr ''rui@x'')
       (JArr [JStr ''x'', JStr ''s2'']))) = JUsuario v"
    by blast
  from v(1,2) have "v = \<lparr>usuario_id = 2, nome = ''Rui'', email = ''rui@x'', senha = ''s2''\<rparr>"
    by (auto simp: us ig)
  with v(3,4) have r5:
    "fst (login exemplo_amb exemplo_db (JStr ''rui@x'') (JArr [JStr ''x'', JStr ''s2''])) =
      (200, JUsuario \<lparr>usuario_id = 2, nome = ''Rui'', email = ''rui@x'', senha = ''s2''\<rparr>)"
    by (simp add: prod_eq_iff)
  show ?thesis
    using r1 r2 r3 r4 r5 g1 by blast
qed

end
